theory Spec2Isabelle
  imports Complex_Main
begin

section \<open>The straddle scalper: data model\<close>

text \<open>
  The development embeds \<^verbatim>\<open>agents/straddle_scalper.py\<close>. Python floats are modelled
  as reals: every property below depends on the order of the compared values and on the
  control flow only, and the concrete runs use values whose comparisons have a wide
  margin. Rounding, infinities and not-a-number values are outside the model.
\<close>

text \<open>\<^verbatim>\<open>class StraddleConfig\<close>: the nine constructor parameters, stored as they are.\<close>

record StraddleConfig =
  symbol :: string
  straddle_gap_pips :: real
  stop_loss_pips :: real
  take_profit_pips :: real
  trailing_start_pips :: real
  trailing_step_pips :: real
  velocity_threshold_pips :: real
  max_spread_pips :: real
  lot_size :: real

text \<open>The default arguments of \<^verbatim>\<open>StraddleConfig.__init__\<close>.\<close>

definition default_config :: StraddleConfig where
  "default_config =
     \<lparr> symbol = ''EURUSD'', straddle_gap_pips = 2, stop_loss_pips = 3,
       take_profit_pips = 5, trailing_start_pips = 1, trailing_step_pips = 1 / 2,
       velocity_threshold_pips = 1 / 2, max_spread_pips = 1, lot_size = 1 / 100 \<rparr>"

text \<open>
  \<^verbatim>\<open>class MarketData\<close>: bid, ask and timestamp; \<^verbatim>\<open>mid\<close> is assigned once in the
  constructor as \<^verbatim>\<open>(bid + ask) / 2\<close> and never written again, so it is a function
  of the other fields.
\<close>

record MarketData =
  bid :: real
  ask :: real
  timestamp :: real

definition mid :: "MarketData \<Rightarrow> real" where
  "mid t = (bid t + ask t) / 2"

text \<open>
  \<^verbatim>\<open>active_position\<close> is \<^verbatim>\<open>None\<close> or a dict with the keys \<^verbatim>\<open>side\<close>,
  \<^verbatim>\<open>entry\<close> and \<^verbatim>\<open>sl\<close>; the side is the string \<^verbatim>\<open>'BUY'\<close> or \<^verbatim>\<open>'SELL'\<close>.
  A dict with three keys is truthy, so \<^verbatim>\<open>if self.active_position\<close> tests for
  \<^verbatim>\<open>None\<close> only.
\<close>

datatype side = BUY | SELL

record position =
  side :: side
  entry :: real
  sl :: real

text \<open>The five dicts that \<^verbatim>\<open>on_tick\<close> returns, by their \<^verbatim>\<open>action\<close> key.\<close>

datatype instruction =
    OPEN_BUY real real
  | OPEN_SELL real real
  | MODIFY_SL real
  | CLOSE_BUY
  | CLOSE_SELL

text \<open>\<^verbatim>\<open>class StraddleLogic\<close>: the mutable fields. The configuration is never
  written after construction and is passed beside the state.\<close>

record StraddleLogic =
  virtual_buy_stop :: "real option"
  virtual_sell_stop :: "real option"
  active_position :: "position option"
  last_tick :: "MarketData option"
  velocity :: real
  is_active :: bool

text \<open>\<^verbatim>\<open>StraddleLogic.__init__\<close>.\<close>

definition init :: StraddleLogic where
  "init =
     \<lparr> virtual_buy_stop = None, virtual_sell_stop = None, active_position = None,
       last_tick = None, velocity = 0, is_active = False \<rparr>"

section \<open>The operations\<close>

text \<open>
  \<^verbatim>\<open>reset_cage(current_price=None)\<close>. Without an anchor, the mid price of the stored
  last tick is taken when there is one. A truthy anchor places both stops at the gap
  around it; otherwise both are cleared. \<^verbatim>\<open>is_active\<close> is not touched.
\<close>

definition reset_cage :: "StraddleConfig \<Rightarrow> StraddleLogic \<Rightarrow> real option \<Rightarrow> StraddleLogic" where
  "reset_cage cfg s current_price =
     (let cp = (case current_price of
                  None \<Rightarrow> (case last_tick s of None \<Rightarrow> None | Some lt \<Rightarrow> Some (mid lt))
                | Some p \<Rightarrow> Some p)
      in case cp of
           None \<Rightarrow> s\<lparr>virtual_buy_stop := None, virtual_sell_stop := None\<rparr>
         | Some p \<Rightarrow>
             if p \<noteq> 0
             then (let gap = straddle_gap_pips cfg / 10000
                   in s\<lparr>virtual_buy_stop := Some (p + gap),
                        virtual_sell_stop := Some (p - gap)\<rparr>)
             else s\<lparr>virtual_buy_stop := None, virtual_sell_stop := None\<rparr>)"

text \<open>
  The first half of \<^verbatim>\<open>_manage_cage\<close>: the buy stop trails down to \<^verbatim>\<open>ask + gap\<close>,
  then the sell stop trails up to \<^verbatim>\<open>bid - gap\<close>, each only when it is truthy.
\<close>

definition trail_buy :: "StraddleConfig \<Rightarrow> StraddleLogic \<Rightarrow> MarketData \<Rightarrow> StraddleLogic" where
  "trail_buy cfg s t =
     (let gap = straddle_gap_pips cfg / 10000
      in case virtual_buy_stop s of
           None \<Rightarrow> s
         | Some b \<Rightarrow>
             if b \<noteq> 0 \<and> ask t + gap < b
             then s\<lparr>virtual_buy_stop := Some (ask t + gap)\<rparr> else s)"

definition trail_sell :: "StraddleConfig \<Rightarrow> StraddleLogic \<Rightarrow> MarketData \<Rightarrow> StraddleLogic" where
  "trail_sell cfg s t =
     (let gap = straddle_gap_pips cfg / 10000
      in case virtual_sell_stop s of
           None \<Rightarrow> s
         | Some c \<Rightarrow>
             if c \<noteq> 0 \<and> bid t - gap > c
             then s\<lparr>virtual_sell_stop := Some (bid t - gap)\<rparr> else s)"

definition trail_cage :: "StraddleConfig \<Rightarrow> StraddleLogic \<Rightarrow> MarketData \<Rightarrow> StraddleLogic" where
  "trail_cage cfg s t = trail_sell cfg (trail_buy cfg s t) t"

text \<open>The breach tests of \<^verbatim>\<open>_manage_cage\<close>, on the trailed stops.\<close>

definition buy_breach :: "StraddleLogic \<Rightarrow> MarketData \<Rightarrow> bool" where
  "buy_breach s t =
     (case virtual_buy_stop s of None \<Rightarrow> False | Some b \<Rightarrow> b \<noteq> 0 \<and> ask t \<ge> b)"

definition sell_breach :: "StraddleLogic \<Rightarrow> MarketData \<Rightarrow> bool" where
  "sell_breach s t =
     (case virtual_sell_stop s of None \<Rightarrow> False | Some c \<Rightarrow> c \<noteq> 0 \<and> bid t \<le> c)"

text \<open>\<^verbatim>\<open>_manage_cage\<close>: trail, then test the buy stop before the sell stop.\<close>

definition manage_cage ::
  "StraddleConfig \<Rightarrow> StraddleLogic \<Rightarrow> MarketData \<Rightarrow> StraddleLogic \<times> instruction option" where
  "manage_cage cfg s t =
     (let s1 = trail_cage cfg s t
      in if buy_breach s1 t
         then (let stop = ask t - stop_loss_pips cfg / 10000
               in (s1\<lparr>active_position := Some \<lparr>side = BUY, entry = ask t, sl = stop\<rparr>\<rparr>,
                   Some (OPEN_BUY (ask t) stop)))
         else if sell_breach s1 t
         then (let stop = bid t + stop_loss_pips cfg / 10000
               in (s1\<lparr>active_position := Some \<lparr>side = SELL, entry = bid t, sl = stop\<rparr>\<rparr>,
                   Some (OPEN_SELL (bid t) stop)))
         else (s1, None))"

text \<open>
  \<^verbatim>\<open>_manage_position\<close>: nothing without a position; for a BUY the hard stop on the
  bid, then the trailing stop; for a SELL the mirror image on the ask. The constant
  \<^verbatim>\<open>pips\<close> is 0.0001.
\<close>

definition manage_position ::
  "StraddleConfig \<Rightarrow> StraddleLogic \<Rightarrow> MarketData \<Rightarrow> StraddleLogic \<times> instruction option" where
  "manage_position cfg s t =
     (case active_position s of
        None \<Rightarrow> (s, None)
      | Some p \<Rightarrow>
          (let pips = 1 / 10000; stop = sl p
           in case side p of
                BUY \<Rightarrow>
                  (let profit = bid t - entry p
                   in if bid t \<le> stop
                      then (reset_cage cfg (s\<lparr>active_position := None\<rparr>) (Some (mid t)),
                            Some CLOSE_BUY)
                      else if profit > trailing_start_pips cfg * pips
                      then (let new_sl = bid t - trailing_step_pips cfg * pips
                            in if new_sl > stop
                               then (s\<lparr>active_position := Some (p\<lparr>sl := new_sl\<rparr>)\<rparr>,
                                     Some (MODIFY_SL new_sl))
                               else (s, None))
                      else (s, None))
              | SELL \<Rightarrow>
                  (let profit = entry p - ask t
                   in if ask t \<ge> stop
                      then (reset_cage cfg (s\<lparr>active_position := None\<rparr>) (Some (mid t)),
                            Some CLOSE_SELL)
                      else if profit > trailing_start_pips cfg * pips
                      then (let new_sl = ask t + trailing_step_pips cfg * pips
                            in if new_sl < stop
                               then (s\<lparr>active_position := Some (p\<lparr>sl := new_sl\<rparr>)\<rparr>,
                                     Some (MODIFY_SL new_sl))
                               else (s, None))
                      else (s, None))))"

text \<open>
  Step 1 of \<^verbatim>\<open>on_tick\<close>: the smoothed velocity after the tick. The division by
  \<^verbatim>\<open>dt\<close> is under the guard \<^verbatim>\<open>dt > 0\<close>.
\<close>

definition update_velocity :: "StraddleLogic \<Rightarrow> MarketData \<Rightarrow> real" where
  "update_velocity s t =
     (case last_tick s of
        None \<Rightarrow> velocity s
      | Some lt \<Rightarrow>
          (let dt = timestamp t - timestamp lt
           in if dt > 0
              then (let price_change_pips = \<bar>mid t - mid lt\<bar> * 10000;
                        current_velocity = price_change_pips / dt
                    in velocity s * (7 / 10) + current_velocity * (3 / 10))
              else velocity s))"

text \<open>
  \<^verbatim>\<open>on_tick\<close>: the velocity update, the store of the tick, the velocity filter with
  its early return, the activation, and the dispatch on the position.
\<close>

definition on_tick ::
  "StraddleConfig \<Rightarrow> StraddleLogic \<Rightarrow> MarketData \<Rightarrow> StraddleLogic \<times> instruction option" where
  "on_tick cfg s t =
     (let s1 = s\<lparr>velocity := update_velocity s t\<rparr>;
          s2 = s1\<lparr>last_tick := Some t\<rparr>
      in if velocity s2 < velocity_threshold_pips cfg
         then (if is_active s2 \<and> active_position s2 = None
               then (reset_cage cfg s2 None, None)
               else (s2, None))
         else (let s3 = (if \<not> is_active s2
                         then reset_cage cfg (s2\<lparr>is_active := True\<rparr>) (Some (mid t))
                         else s2)
               in if active_position s3 \<noteq> None
                  then manage_position cfg s3 t
                  else manage_cage cfg s3 t))"

text \<open>
  The driver loop, as in \<^verbatim>\<open>run_simulation\<close>: the ticks are fed one by one; the
  trace holds the state and the instruction after each tick.
\<close>

fun trace ::
  "StraddleConfig \<Rightarrow> StraddleLogic \<Rightarrow> MarketData list \<Rightarrow> (StraddleLogic \<times> instruction option) list" where
  "trace cfg s [] = []"
| "trace cfg s (t # ts) = on_tick cfg s t # trace cfg (fst (on_tick cfg s t)) ts"

fun run :: "StraddleConfig \<Rightarrow> StraddleLogic \<Rightarrow> MarketData list \<Rightarrow> StraddleLogic" where
  "run cfg s [] = s"
| "run cfg s (t # ts) = run cfg (fst (on_tick cfg s t)) ts"

section \<open>The states of the specification, read off the engine's fields\<close>

text \<open>
  The specification names four states: Idle (inactive, no position), Caged (active, no
  position), Long and Short (active, one open position of that side). They are
  predicates on the fields of \<^verbatim>\<open>StraddleLogic\<close>; that exactly one of them holds is
  a property of the reachable states, proved below, not of the definitions.
\<close>

definition is_Idle :: "StraddleLogic \<Rightarrow> bool" where
  "is_Idle s = (\<not> is_active s \<and> active_position s = None)"

definition is_Caged :: "StraddleLogic \<Rightarrow> bool" where
  "is_Caged s = (is_active s \<and> active_position s = None)"

definition is_Long :: "StraddleLogic \<Rightarrow> bool" where
  "is_Long s =
     (is_active s \<and> (case active_position s of None \<Rightarrow> False | Some p \<Rightarrow> side p = BUY))"

definition is_Short :: "StraddleLogic \<Rightarrow> bool" where
  "is_Short s =
     (is_active s \<and> (case active_position s of None \<Rightarrow> False | Some p \<Rightarrow> side p = SELL))"

text \<open>
  The cage levels are populated when both virtual stops are set, and unset when both are
  \<^verbatim>\<open>None\<close>.
\<close>

definition cage_populated :: "StraddleLogic \<Rightarrow> bool" where
  "cage_populated s = (virtual_buy_stop s \<noteq> None \<and> virtual_sell_stop s \<noteq> None)"

definition cage_unset :: "StraddleLogic \<Rightarrow> bool" where
  "cage_unset s = (virtual_buy_stop s = None \<and> virtual_sell_stop s = None)"

text \<open>
  The order on trigger levels: an unset level compares with an unset level only, and two
  set levels compare by their values.
\<close>

definition trigger_le :: "real option \<Rightarrow> real option \<Rightarrow> bool" where
  "trigger_le a b =
     (case a of
        None \<Rightarrow> b = None
      | Some x \<Rightarrow> (case b of None \<Rightarrow> False | Some y \<Rightarrow> x \<le> y))"

text \<open>
  A sequence of ticks is handled by cage management when each tick finds the engine
  active with no position and passes the velocity filter, so that \<^verbatim>\<open>on_tick\<close> reaches
  \<^verbatim>\<open>_manage_cage\<close>. A breach may happen on the last tick only: after it the position
  is open.
\<close>

fun cage_managed :: "StraddleConfig \<Rightarrow> StraddleLogic \<Rightarrow> MarketData list \<Rightarrow> bool" where
  "cage_managed cfg s [] = True"
| "cage_managed cfg s (t # ts) =
     (is_active s \<and> active_position s = None \<and>
      velocity_threshold_pips cfg \<le> update_velocity s t \<and>
      cage_managed cfg (fst (on_tick cfg s t)) ts)"

text \<open>
  Two invariants of the reachable states: a position is only ever open on an active
  engine, and an inactive engine has no cage levels; an active engine has both levels
  (as long as no tick has a zero mid price).
\<close>

definition engine_inv :: "StraddleLogic \<Rightarrow> bool" where
  "engine_inv s =
     ((active_position s \<noteq> None \<longrightarrow> is_active s) \<and> (\<not> is_active s \<longrightarrow> cage_unset s))"

definition cage_inv :: "StraddleLogic \<Rightarrow> bool" where
  "cage_inv s = (is_active s \<longrightarrow> cage_populated s)"

text \<open>
  The observations the specification takes as valid: the ask is not below the bid, and
  both prices are positive.
\<close>

definition valid_observation :: "MarketData \<Rightarrow> bool" where
  "valid_observation t = (bid t \<le> ask t \<and> 0 < bid t \<and> 0 < ask t)"

section \<open>Concrete configurations, ticks and states\<close>

text \<open>
  The default configuration with the velocity threshold raised to 1.25 pips per second:
  \<^verbatim>\<open>StraddleConfig(velocity_threshold_pips=1.25)\<close>.
\<close>

definition cfg_a :: StraddleConfig where
  "cfg_a = default_config\<lparr>velocity_threshold_pips := 5 / 4\<rparr>"

text \<open>
  The opening of every run below: a first tick at 1.1000/1.1001, and one second later a
  tick five pips higher, which lifts the velocity to 1.5 and activates the engine with
  the cage 1.10035/1.10075 around the mid price 1.10055.
\<close>

definition k1 :: MarketData where
  "k1 = \<lparr> bid = 11000 / 10000, ask = 11001 / 10000, timestamp = 0 \<rparr>"

definition k2 :: MarketData where
  "k2 = \<lparr> bid = 11005 / 10000, ask = 11006 / 10000, timestamp = 1 \<rparr>"

definition caged_a :: StraddleLogic where
  "caged_a =
     \<lparr> virtual_buy_stop = Some (110075 / 100000), virtual_sell_stop = Some (110035 / 100000),
       active_position = None, last_tick = Some k2, velocity = 3 / 2, is_active = True \<rparr>"

text \<open>
  A tick with the timestamp of \<open>k1\<close>.
\<close>

definition k1_again :: MarketData where
  "k1_again = \<lparr> bid = 11005 / 10000, ask = 11006 / 10000, timestamp = 0 \<rparr>"

text \<open>
  Third ticks from the caged state: the same prices one second later (velocity 1.05,
  below 1.25); five pips higher after 999 seconds (velocity about 1.05); two pips higher
  (velocity 1.65, the ask crosses the buy stop); two pips lower (velocity 1.65, the bid
  crosses the sell stop); and a tick with an eleven pip spread that crosses both stops.
\<close>

definition k3_calm :: MarketData where
  "k3_calm = \<lparr> bid = 11005 / 10000, ask = 11006 / 10000, timestamp = 2 \<rparr>"

definition k3_late :: MarketData where
  "k3_late = \<lparr> bid = 11010 / 10000, ask = 11011 / 10000, timestamp = 1000 \<rparr>"

definition caged_late :: StraddleLogic where
  "caged_late =
     \<lparr> virtual_buy_stop = Some (110125 / 100000), virtual_sell_stop = Some (110085 / 100000),
       active_position = None, last_tick = Some k3_late,
       velocity = update_velocity caged_a k3_late, is_active = True \<rparr>"

definition k3 :: MarketData where
  "k3 = \<lparr> bid = 11007 / 10000, ask = 11008 / 10000, timestamp = 2 \<rparr>"

definition k3_down :: MarketData where
  "k3_down = \<lparr> bid = 11003 / 10000, ask = 11004 / 10000, timestamp = 2 \<rparr>"

definition k3_wide :: MarketData where
  "k3_wide = \<lparr> bid = 11001 / 10000, ask = 11012 / 10000, timestamp = 2 \<rparr>"

text \<open>
  The long position opened by \<open>k3\<close> and the short position opened by \<open>k3_down\<close>,
  with the engine states that hold them.
\<close>

definition pos_a :: position where
  "pos_a = \<lparr> side = BUY, entry = 11008 / 10000, sl = 11005 / 10000 \<rparr>"

definition long_a :: StraddleLogic where
  "long_a =
     \<lparr> virtual_buy_stop = Some (110075 / 100000), virtual_sell_stop = Some (11005 / 10000),
       active_position = Some \<lparr> side = BUY, entry = 11008 / 10000, sl = 11005 / 10000 \<rparr>,
       last_tick = Some k3, velocity = 33 / 20, is_active = True \<rparr>"

definition pos_b :: position where
  "pos_b = \<lparr> side = SELL, entry = 11003 / 10000, sl = 11006 / 10000 \<rparr>"

definition short_a :: StraddleLogic where
  "short_a =
     \<lparr> virtual_buy_stop = Some (11006 / 10000), virtual_sell_stop = Some (110035 / 100000),
       active_position = Some pos_b, last_tick = Some k3_down, velocity = 33 / 20,
       is_active = True \<rparr>"

text \<open>
  Fourth ticks for the long position: the bid one pip under the stop, slow (after 998
  seconds) and fast (after one second); the bid four pips over the entry, slow and
  fast.
\<close>

definition k4_stop :: MarketData where
  "k4_stop = \<lparr> bid = 11004 / 10000, ask = 11005 / 10000, timestamp = 1000 \<rparr>"

definition k4_fast :: MarketData where
  "k4_fast = \<lparr> bid = 11004 / 10000, ask = 11005 / 10000, timestamp = 3 \<rparr>"

definition k4_profit_late :: MarketData where
  "k4_profit_late = \<lparr> bid = 11012 / 10000, ask = 11013 / 10000, timestamp = 1000 \<rparr>"

definition k4_profit_fast :: MarketData where
  "k4_profit_fast = \<lparr> bid = 11012 / 10000, ask = 11013 / 10000, timestamp = 3 \<rparr>"

text \<open>
  Fourth ticks for the short position: the ask one pip over the stop, slow and fast.
\<close>

definition k4_up_late :: MarketData where
  "k4_up_late = \<lparr> bid = 11006 / 10000, ask = 11007 / 10000, timestamp = 1000 \<rparr>"

definition k4_up_fast :: MarketData where
  "k4_up_fast = \<lparr> bid = 11006 / 10000, ask = 11007 / 10000, timestamp = 3 \<rparr>"

text \<open>
  Two ticks that trail the cage without a breach: the first raises the sell stop to
  1.1004, the second lowers the buy stop to 1.10072.
\<close>

definition w1 :: MarketData where
  "w1 = \<lparr> bid = 11006 / 10000, ask = 11007 / 10000, timestamp = 2 \<rparr>"

definition caged_w1 :: StraddleLogic where
  "caged_w1 =
     \<lparr> virtual_buy_stop = Some (110075 / 100000), virtual_sell_stop = Some (11004 / 10000),
       active_position = None, last_tick = Some w1, velocity = 27 / 20, is_active = True \<rparr>"

definition w2 :: MarketData where
  "w2 = \<lparr> bid = 110042 / 100000, ask = 110052 / 100000, timestamp = 3 \<rparr>"

definition caged_w2 :: StraddleLogic where
  "caged_w2 =
     \<lparr> virtual_buy_stop = Some (110072 / 100000), virtual_sell_stop = Some (11004 / 10000),
       active_position = None, last_tick = Some w2, velocity = 297 / 200, is_active = True \<rparr>"

text \<open>
  A crossed tick (the ask ten pips under the bid) as the second tick of a run, and the
  state it leaves.
\<close>

definition k2_crossed :: MarketData where
  "k2_crossed = \<lparr> bid = 11010 / 10000, ask = 11000 / 10000, timestamp = 1 \<rparr>"

definition caged_crossed :: StraddleLogic where
  "caged_crossed =
     \<lparr> virtual_buy_stop = Some (11002 / 10000), virtual_sell_stop = Some (11008 / 10000),
       active_position = None, last_tick = Some k2_crossed, velocity = 27 / 20,
       is_active = True \<rparr>"






section \<open>Frame lemmas: the fields each operation leaves alone\<close>

lemma reset_cage_frame [simp]:
  "velocity (reset_cage cfg s p) = velocity s"
  "last_tick (reset_cage cfg s p) = last_tick s"
  "is_active (reset_cage cfg s p) = is_active s"
  "active_position (reset_cage cfg s p) = active_position s"
  by (simp_all add: reset_cage_def Let_def split: option.split)

lemma trail_buy_frame [simp]:
  "velocity (trail_buy cfg s t) = velocity s"
  "last_tick (trail_buy cfg s t) = last_tick s"
  "is_active (trail_buy cfg s t) = is_active s"
  "active_position (trail_buy cfg s t) = active_position s"
  "virtual_sell_stop (trail_buy cfg s t) = virtual_sell_stop s"
  by (simp_all add: trail_buy_def Let_def split: option.split)

lemma trail_sell_frame [simp]:
  "velocity (trail_sell cfg s t) = velocity s"
  "last_tick (trail_sell cfg s t) = last_tick s"
  "is_active (trail_sell cfg s t) = is_active s"
  "active_position (trail_sell cfg s t) = active_position s"
  "virtual_buy_stop (trail_sell cfg s t) = virtual_buy_stop s"
  by (simp_all add: trail_sell_def Let_def split: option.split)

lemma trail_cage_frame [simp]:
  "velocity (trail_cage cfg s t) = velocity s"
  "last_tick (trail_cage cfg s t) = last_tick s"
  "is_active (trail_cage cfg s t) = is_active s"
  "active_position (trail_cage cfg s t) = active_position s"
  by (simp_all add: trail_cage_def)

lemma manage_cage_frame [simp]:
  "velocity (fst (manage_cage cfg s t)) = velocity s"
  "last_tick (fst (manage_cage cfg s t)) = last_tick s"
  "is_active (fst (manage_cage cfg s t)) = is_active s"
  by (simp_all add: manage_cage_def Let_def)

lemma manage_position_frame [simp]:
  "velocity (fst (manage_position cfg s t)) = velocity s"
  "last_tick (fst (manage_position cfg s t)) = last_tick s"
  "is_active (fst (manage_position cfg s t)) = is_active s"
  by (simp_all add: manage_position_def Let_def split: option.split side.split)

lemma on_tick_velocity: "velocity (fst (on_tick cfg s t)) = update_velocity s t"
  by (simp add: on_tick_def Let_def)

lemma on_tick_last_tick: "last_tick (fst (on_tick cfg s t)) = Some t"
  by (simp add: on_tick_def Let_def)

section \<open>The branches of on_tick\<close>

text \<open>
  Below the threshold \<^verbatim>\<open>on_tick\<close> returns at once, after a cage reset when the
  engine is active and flat. At or above it, an active engine dispatches on the position;
  an inactive one is activated and its cage placed around the mid price first.
\<close>

lemma on_tick_gate_closed:
  assumes "update_velocity s t < velocity_threshold_pips cfg"
  shows "on_tick cfg s t =
    (if is_active s \<and> active_position s = None
     then reset_cage cfg (s\<lparr>velocity := update_velocity s t, last_tick := Some t\<rparr>) None
     else s\<lparr>velocity := update_velocity s t, last_tick := Some t\<rparr>, None)"
  using assms by (simp add: on_tick_def Let_def)

lemma on_tick_gate_open:
  assumes "velocity_threshold_pips cfg \<le> update_velocity s t" and "is_active s"
  shows "on_tick cfg s t =
    (if active_position s \<noteq> None
     then manage_position cfg (s\<lparr>velocity := update_velocity s t, last_tick := Some t\<rparr>) t
     else manage_cage cfg (s\<lparr>velocity := update_velocity s t, last_tick := Some t\<rparr>) t)"
  using assms by (simp add: on_tick_def Let_def)

lemma on_tick_activation:
  assumes "velocity_threshold_pips cfg \<le> update_velocity s t" and "\<not> is_active s"
  shows "on_tick cfg s t =
    (if active_position s \<noteq> None
     then manage_position cfg (reset_cage cfg
            (s\<lparr>velocity := update_velocity s t, last_tick := Some t, is_active := True\<rparr>)
            (Some (mid t))) t
     else manage_cage cfg (reset_cage cfg
            (s\<lparr>velocity := update_velocity s t, last_tick := Some t, is_active := True\<rparr>)
            (Some (mid t))) t)"
  using assms by (simp add: on_tick_def Let_def)

lemma on_tick_position:
  assumes "active_position s = Some p" and "is_active s"
  shows "on_tick cfg s t =
    (if update_velocity s t < velocity_threshold_pips cfg
     then (s\<lparr>velocity := update_velocity s t, last_tick := Some t\<rparr>, None)
     else manage_position cfg (s\<lparr>velocity := update_velocity s t, last_tick := Some t\<rparr>) t)"
  using assms by (simp add: on_tick_gate_closed on_tick_gate_open not_less)

lemma on_tick_with_position:
  assumes "active_position s = Some p"
  shows "\<exists>s'. active_position s' = Some p \<and>
     on_tick cfg s t =
       (if update_velocity s t < velocity_threshold_pips cfg then (s', None)
        else manage_position cfg s' t)"
proof -
  let ?s2 = "s\<lparr>velocity := update_velocity s t, last_tick := Some t\<rparr>"
  let ?s3 = "reset_cage cfg (?s2\<lparr>is_active := True\<rparr>) (Some (mid t))"
  have p2: "active_position ?s2 = Some p" and p3: "active_position ?s3 = Some p"
    using assms by simp_all
  consider (closed) "update_velocity s t < velocity_threshold_pips cfg"
    | (active) "velocity_threshold_pips cfg \<le> update_velocity s t" "is_active s"
    | (inactive) "velocity_threshold_pips cfg \<le> update_velocity s t" "\<not> is_active s"
    by fastforce
  then show ?thesis
  proof cases
    case closed
    then have "on_tick cfg s t = (?s2, None)"
      using assms by (simp add: on_tick_gate_closed)
    with closed p2 show ?thesis
      by (intro exI [of _ ?s2]) simp
  next
    case active
    then have "on_tick cfg s t = manage_position cfg ?s2 t"
      using assms by (simp add: on_tick_gate_open)
    with active p2 show ?thesis
      by (intro exI [of _ ?s2]) simp
  next
    case inactive
    then have "on_tick cfg s t = manage_position cfg ?s3 t"
      using assms by (simp add: on_tick_activation)
    with inactive p3 show ?thesis
      by (intro exI [of _ ?s3]) simp
  qed
qed

lemma on_tick_caged:
  assumes "is_active s" and "active_position s = None"
    and "velocity_threshold_pips cfg \<le> update_velocity s t"
  shows "on_tick cfg s t =
    manage_cage cfg (s\<lparr>velocity := update_velocity s t, last_tick := Some t\<rparr>) t"
  using assms by (simp add: on_tick_gate_open)

lemma on_tick_is_active:
  "is_active (fst (on_tick cfg s t)) =
     (is_active s \<or> velocity_threshold_pips cfg \<le> update_velocity s t)"
  by (auto simp add: on_tick_def Let_def)

text \<open>
  The two ways \<^verbatim>\<open>reset_cage\<close> finds a non-zero anchor.
\<close>

lemma reset_cage_last_tick:
  assumes "last_tick s = Some t" and "mid t \<noteq> 0"
  shows "reset_cage cfg s None =
    s\<lparr>virtual_buy_stop := Some (mid t + straddle_gap_pips cfg / 10000),
      virtual_sell_stop := Some (mid t - straddle_gap_pips cfg / 10000)\<rparr>"
  using assms by (simp add: reset_cage_def Let_def)

lemma reset_cage_anchor:
  assumes "p \<noteq> 0"
  shows "reset_cage cfg s (Some p) =
    s\<lparr>virtual_buy_stop := Some (p + straddle_gap_pips cfg / 10000),
      virtual_sell_stop := Some (p - straddle_gap_pips cfg / 10000)\<rparr>"
  using assms by (simp add: reset_cage_def Let_def)

text \<open>
  \<^verbatim>\<open>_manage_position\<close> by the side of the open position, and \<^verbatim>\<open>_manage_cage\<close> by
  the breach tests on the trailed stops.
\<close>

lemma manage_position_buy:
  assumes "active_position s = Some p" and "side p = BUY"
  shows "manage_position cfg s t =
    (if bid t \<le> sl p
     then (reset_cage cfg (s\<lparr>active_position := None\<rparr>) (Some (mid t)), Some CLOSE_BUY)
     else if trailing_start_pips cfg / 10000 < bid t - entry p \<and>
             sl p < bid t - trailing_step_pips cfg / 10000
     then (s\<lparr>active_position := Some (p\<lparr>sl := bid t - trailing_step_pips cfg / 10000\<rparr>)\<rparr>,
           Some (MODIFY_SL (bid t - trailing_step_pips cfg / 10000)))
     else (s, None))"
  using assms by (simp add: manage_position_def Let_def)

lemma manage_position_sell:
  assumes "active_position s = Some p" and "side p = SELL"
  shows "manage_position cfg s t =
    (if sl p \<le> ask t
     then (reset_cage cfg (s\<lparr>active_position := None\<rparr>) (Some (mid t)), Some CLOSE_SELL)
     else if trailing_start_pips cfg / 10000 < entry p - ask t \<and>
             ask t + trailing_step_pips cfg / 10000 < sl p
     then (s\<lparr>active_position := Some (p\<lparr>sl := ask t + trailing_step_pips cfg / 10000\<rparr>)\<rparr>,
           Some (MODIFY_SL (ask t + trailing_step_pips cfg / 10000)))
     else (s, None))"
  using assms by (simp add: manage_position_def Let_def)

lemma manage_cage_stops [simp]:
  "virtual_buy_stop (fst (manage_cage cfg s t)) = virtual_buy_stop (trail_cage cfg s t)"
  "virtual_sell_stop (fst (manage_cage cfg s t)) = virtual_sell_stop (trail_cage cfg s t)"
  by (simp_all add: manage_cage_def Let_def)

lemma breach_after_manage_cage [simp]:
  "buy_breach (fst (manage_cage cfg s t)) t = buy_breach (trail_cage cfg s t) t"
  "sell_breach (fst (manage_cage cfg s t)) t = sell_breach (trail_cage cfg s t) t"
  by (simp_all add: buy_breach_def sell_breach_def)

lemma manage_cage_cases:
  "manage_cage cfg s t =
     (if buy_breach (trail_cage cfg s t) t
      then (trail_cage cfg s t
              \<lparr>active_position :=
                 Some \<lparr>side = BUY, entry = ask t, sl = ask t - stop_loss_pips cfg / 10000\<rparr>\<rparr>,
            Some (OPEN_BUY (ask t) (ask t - stop_loss_pips cfg / 10000)))
      else if sell_breach (trail_cage cfg s t) t
      then (trail_cage cfg s t
              \<lparr>active_position :=
                 Some \<lparr>side = SELL, entry = bid t, sl = bid t + stop_loss_pips cfg / 10000\<rparr>\<rparr>,
            Some (OPEN_SELL (bid t) (bid t + stop_loss_pips cfg / 10000)))
      else (trail_cage cfg s t, None))"
  by (simp add: manage_cage_def Let_def)

section \<open>The concrete runs, step by step\<close>

lemmas eval_defs = on_tick_def update_velocity_def manage_cage_def manage_position_def
  trail_cage_def trail_buy_def trail_sell_def buy_breach_def sell_breach_def reset_cage_def
  mid_def Let_def

lemma first_tick: "on_tick default_config init k1 = (init\<lparr>last_tick := Some k1\<rparr>, None)"
  by (simp add: on_tick_def update_velocity_def init_def default_config_def Let_def)

lemma step_a1: "on_tick cfg_a init k1 = (init\<lparr>last_tick := Some k1\<rparr>, None)"
  by (simp add: on_tick_def update_velocity_def init_def cfg_a_def default_config_def Let_def)

lemma step_a2: "on_tick cfg_a (init\<lparr>last_tick := Some k1\<rparr>) k2 = (caged_a, None)"
  by (simp add: eval_defs init_def cfg_a_def default_config_def k1_def k2_def caged_a_def)

lemma run_a2: "run cfg_a init [k1, k2] = caged_a"
  by (simp add: step_a1 step_a2)

lemma step_a3: "on_tick cfg_a caged_a k3 = (long_a, Some (OPEN_BUY (11008 / 10000) (11005 / 10000)))"
  by (simp add: eval_defs cfg_a_def default_config_def k2_def k3_def caged_a_def long_a_def)

lemma run_a3: "run cfg_a init [k1, k2, k3] = long_a"
  by (simp add: step_a1 step_a2 step_a3)

lemma step_d2: "on_tick default_config (init\<lparr>last_tick := Some k1\<rparr>) k2 = (caged_a, None)"
  by (simp add: eval_defs init_def default_config_def k1_def k2_def caged_a_def)

lemma step_d3:
  "on_tick default_config caged_a k3 = (long_a, Some (OPEN_BUY (11008 / 10000) (11005 / 10000)))"
  by (simp add: eval_defs default_config_def k2_def k3_def caged_a_def long_a_def)

lemma run_d3: "run default_config init [k1, k2, k3] = long_a"
  by (simp add: first_tick step_d2 step_d3)

lemma step_a3_down:
  "on_tick cfg_a caged_a k3_down = (short_a, Some (OPEN_SELL (11003 / 10000) (11006 / 10000)))"
  by (simp add: eval_defs cfg_a_def default_config_def k2_def k3_down_def caged_a_def
      short_a_def pos_b_def)

lemma run_a3_down: "run cfg_a init [k1, k2, k3_down] = short_a"
  by (simp add: step_a1 step_a2 step_a3_down)

lemma step_calm: "on_tick cfg_a caged_a k3_calm = (caged_a\<lparr>velocity := 21 / 20, last_tick := Some k3_calm\<rparr>, None)"
  by (simp add: eval_defs cfg_a_def default_config_def k2_def k3_calm_def caged_a_def)

lemma step_late: "on_tick cfg_a caged_a k3_late = (caged_late, None)"
  by (simp add: eval_defs cfg_a_def default_config_def k2_def k3_late_def caged_a_def
      caged_late_def)

lemma step_stop: "on_tick cfg_a long_a k4_stop = (long_a\<lparr>velocity := update_velocity long_a k4_stop, last_tick := Some k4_stop\<rparr>, None)"
  by (simp add: eval_defs cfg_a_def default_config_def k3_def k4_stop_def long_a_def)

lemma step_up_late:
  "on_tick cfg_a short_a k4_up_late =
     (short_a\<lparr>velocity := update_velocity short_a k4_up_late, last_tick := Some k4_up_late\<rparr>, None)"
  by (simp add: eval_defs cfg_a_def default_config_def k3_down_def k4_up_late_def short_a_def
      pos_b_def)

lemma step_profit_late:
  "on_tick cfg_a long_a k4_profit_late =
     (long_a\<lparr>velocity := update_velocity long_a k4_profit_late,
        last_tick := Some k4_profit_late\<rparr>, None)"
  by (simp add: eval_defs cfg_a_def default_config_def k3_def k4_profit_late_def long_a_def)

lemma step_profit_fast:
  "on_tick cfg_a long_a k4_profit_fast =
     (long_a\<lparr>velocity := 531 / 200, last_tick := Some k4_profit_fast,
        active_position := Some (pos_a\<lparr>sl := 110115 / 100000\<rparr>)\<rparr>,
      Some (MODIFY_SL (110115 / 100000)))"
  by (simp add: eval_defs cfg_a_def default_config_def k3_def k4_profit_fast_def long_a_def
      pos_a_def)

lemma step_w1: "on_tick cfg_a caged_a w1 = (caged_w1, None)"
  by (simp add: eval_defs cfg_a_def default_config_def k2_def w1_def caged_a_def caged_w1_def)

lemma step_w2: "on_tick cfg_a caged_w1 w2 = (caged_w2, None)"
  by (simp add: eval_defs cfg_a_def default_config_def w1_def w2_def caged_w1_def caged_w2_def)

lemma step_crossed:
  "on_tick default_config (init\<lparr>last_tick := Some k1\<rparr>) k2_crossed = (caged_crossed, None)"
  by (simp add: eval_defs init_def default_config_def k1_def k2_crossed_def caged_crossed_def)





section \<open>A velocity drop while caged\<close>

text \<open>
  C1, as the code has it. On a tick whose smoothed velocity is below the threshold, with
  the engine active and no position held, \<^verbatim>\<open>on_tick\<close> calls \<^verbatim>\<open>reset_cage()\<close>
  without an anchor. The anchor then is the mid price of the stored last tick, which is
  the tick itself. So, for a tick whose mid price is not zero, both virtual stops are
  placed anew at the gap around the tick's mid price; \<^verbatim>\<open>is_active\<close> stays true (the
  state stays Caged) and no instruction is emitted.
\<close>

theorem velocity_drop_reanchors_cage:
  assumes "update_velocity s t < velocity_threshold_pips cfg"
    and "is_active s" and "active_position s = None" and "mid t \<noteq> 0"
  shows "on_tick cfg s t =
    (s\<lparr>velocity := update_velocity s t, last_tick := Some t,
       virtual_buy_stop := Some (mid t + straddle_gap_pips cfg / 10000),
       virtual_sell_stop := Some (mid t - straddle_gap_pips cfg / 10000)\<rparr>, None)
    \<and> is_Caged (fst (on_tick cfg s t))"
proof -
  let ?s2 = "s\<lparr>velocity := update_velocity s t, last_tick := Some t\<rparr>"
  have "on_tick cfg s t = (reset_cage cfg ?s2 None, None)"
    using assms by (simp add: on_tick_gate_closed)
  moreover have "reset_cage cfg ?s2 None =
    ?s2\<lparr>virtual_buy_stop := Some (mid t + straddle_gap_pips cfg / 10000),
      virtual_sell_stop := Some (mid t - straddle_gap_pips cfg / 10000)\<rparr>"
    using assms(4) by (simp add: reset_cage_last_tick)
  ultimately show ?thesis
    using assms(2,3) by (simp add: is_Caged_def)
qed

text \<open>
  The third tick \<open>k3_calm\<close> repeats the prices of the second; the velocity decays to
  1.05, under the threshold 1.25, and the cage is placed where it was.
\<close>

theorem velocity_drop_reanchors_cage_witness:
  "update_velocity caged_a k3_calm < velocity_threshold_pips cfg_a \<and>
   is_active caged_a \<and> active_position caged_a = None \<and> mid k3_calm \<noteq> 0 \<and>
   on_tick cfg_a caged_a k3_calm =
     (caged_a\<lparr>velocity := update_velocity caged_a k3_calm, last_tick := Some k3_calm,
        virtual_buy_stop := Some (mid k3_calm + straddle_gap_pips cfg_a / 10000),
        virtual_sell_stop := Some (mid k3_calm - straddle_gap_pips cfg_a / 10000)\<rparr>, None) \<and>
   is_Caged (fst (on_tick cfg_a caged_a k3_calm))"
proof -
  have v: "update_velocity caged_a k3_calm = 21 / 20"
    by (simp add: caged_a_def update_velocity_def k2_def k3_calm_def mid_def)
  have a: "update_velocity caged_a k3_calm < velocity_threshold_pips cfg_a"
    by (simp add: v cfg_a_def default_config_def)
  have b: "is_active caged_a" "active_position caged_a = None"
    by (simp_all add: caged_a_def)
  have c: "mid k3_calm \<noteq> 0"
    by (simp add: k3_calm_def mid_def)
  from velocity_drop_reanchors_cage [OF a b c] a b c show ?thesis
    by blast
qed

text \<open>
  The claim that the engine becomes Idle with both trigger levels unset fails on that
  run: after \<open>k3_calm\<close> the engine is still active and both levels are set.
\<close>

theorem velocity_drop_stays_active:
  "is_Caged (run cfg_a init [k1, k2]) \<and>
   update_velocity (run cfg_a init [k1, k2]) k3_calm < velocity_threshold_pips cfg_a \<and>
   is_active (fst (on_tick cfg_a (run cfg_a init [k1, k2]) k3_calm)) \<and>
   virtual_buy_stop (fst (on_tick cfg_a (run cfg_a init [k1, k2]) k3_calm)) = Some (110075 / 100000) \<and>
   virtual_sell_stop (fst (on_tick cfg_a (run cfg_a init [k1, k2]) k3_calm)) = Some (110035 / 100000)"
  unfolding run_a2 step_calm
  by (simp add: caged_a_def is_Caged_def update_velocity_def k2_def k3_calm_def mid_def
      cfg_a_def default_config_def)

section \<open>Position management behind the velocity filter\<close>

text \<open>
  C4, as the code has it. With a position open on an active engine, \<^verbatim>\<open>on_tick\<close>
  applies \<^verbatim>\<open>_manage_position\<close> exactly when the smoothed velocity is at or above the
  threshold; below it, the tick is stored, nothing is emitted and the position with its
  stop is left as it was. In particular a bid at or under the stop of a long position
  gives \<^verbatim>\<open>CLOSE_BUY\<close> when the velocity passes the filter and nothing otherwise, and
  the same holds for a short position and \<^verbatim>\<open>CLOSE_SELL\<close>.
\<close>

theorem position_managed_behind_gate:
  assumes "active_position s = Some p" and "is_active s"
  shows "on_tick cfg s t =
      (if update_velocity s t < velocity_threshold_pips cfg
       then (s\<lparr>velocity := update_velocity s t, last_tick := Some t\<rparr>, None)
       else manage_position cfg (s\<lparr>velocity := update_velocity s t, last_tick := Some t\<rparr>) t)
    \<and> (side p = BUY \<and> bid t \<le> sl p \<longrightarrow>
         snd (on_tick cfg s t) =
           (if update_velocity s t < velocity_threshold_pips cfg then None else Some CLOSE_BUY))
    \<and> (side p = SELL \<and> sl p \<le> ask t \<longrightarrow>
         snd (on_tick cfg s t) =
           (if update_velocity s t < velocity_threshold_pips cfg then None else Some CLOSE_SELL))"
proof -
  let ?s2 = "s\<lparr>velocity := update_velocity s t, last_tick := Some t\<rparr>"
  have pos: "active_position ?s2 = Some p"
    using assms(1) by simp
  have step: "on_tick cfg s t =
      (if update_velocity s t < velocity_threshold_pips cfg then (?s2, None)
       else manage_position cfg ?s2 t)"
    by (rule on_tick_position [OF assms])
  have buy: "snd (manage_position cfg ?s2 t) = Some CLOSE_BUY" if "side p = BUY" "bid t \<le> sl p"
    using that by (simp add: manage_position_buy [OF pos])
  have sell: "snd (manage_position cfg ?s2 t) = Some CLOSE_SELL" if "side p = SELL" "sl p \<le> ask t"
    using that by (simp add: manage_position_sell [OF pos])
  show ?thesis
    using buy sell by (simp add: step)
qed

text \<open>
  The long position of \<open>long_a\<close> with the bid under its stop one second later: the
  velocity is 2.055, and the position is closed.
\<close>

theorem position_managed_behind_gate_witness:
  "active_position long_a = Some pos_a \<and> is_active long_a \<and>
   side pos_a = BUY \<and> bid k4_fast \<le> sl pos_a \<and>
   velocity_threshold_pips cfg_a \<le> update_velocity long_a k4_fast \<and>
   snd (on_tick cfg_a long_a k4_fast) = Some CLOSE_BUY"
proof -
  have a: "active_position long_a = Some pos_a" and b: "is_active long_a"
    by (simp_all add: long_a_def pos_a_def)
  have c: "side pos_a = BUY" "bid k4_fast \<le> sl pos_a"
    by (simp_all add: pos_a_def k4_fast_def)
  have v: "update_velocity long_a k4_fast = 411 / 200"
    by (simp add: long_a_def update_velocity_def k3_def k4_fast_def mid_def)
  have d: "velocity_threshold_pips cfg_a \<le> update_velocity long_a k4_fast"
    by (simp add: v cfg_a_def default_config_def)
  from position_managed_behind_gate [OF a b, of cfg_a k4_fast]
  have "side pos_a = BUY \<and> bid k4_fast \<le> sl pos_a \<longrightarrow>
         snd (on_tick cfg_a long_a k4_fast) =
           (if update_velocity long_a k4_fast < velocity_threshold_pips cfg_a
            then None else Some CLOSE_BUY)"
    by (rule conjunct1 [OF conjunct2])
  with c d have "snd (on_tick cfg_a long_a k4_fast) = Some CLOSE_BUY"
    by simp
  with a b c d show ?thesis by blast
qed

text \<open>
  The same bid after 998 seconds: the velocity is under the threshold, the stop is hit,
  and \<^verbatim>\<open>on_tick\<close> returns nothing and keeps the position.
\<close>

theorem slow_tick_skips_hard_stop:
  "active_position (run cfg_a init [k1, k2, k3]) = Some pos_a \<and>
   is_Long (run cfg_a init [k1, k2, k3]) \<and>
   side pos_a = BUY \<and> bid k4_stop \<le> sl pos_a \<and>
   snd (on_tick cfg_a (run cfg_a init [k1, k2, k3]) k4_stop) = None \<and>
   active_position (fst (on_tick cfg_a (run cfg_a init [k1, k2, k3]) k4_stop)) = Some pos_a"
  unfolding run_a3 step_stop
  by (simp add: long_a_def pos_a_def is_Long_def k4_stop_def)

section \<open>The hard stop\<close>

text \<open>
  C6, as the code has it. When the hard stop is hit (the bid at or under the stop of a
  long position, the ask at or over the stop of a short one) on a tick whose smoothed
  velocity is at or above the threshold and whose mid price is not zero, \<^verbatim>\<open>on_tick\<close>
  emits the matching close instruction, clears the position, and leaves the engine
  active with both virtual stops at the gap around the mid price of that tick: the state
  is Caged, never Idle.
\<close>

theorem hard_stop_recages:
  assumes "active_position s = Some p"
    and "velocity_threshold_pips cfg \<le> update_velocity s t"
    and "mid t \<noteq> 0"
  shows "(side p = BUY \<and> bid t \<le> sl p \<longrightarrow>
            on_tick cfg s t =
              (s\<lparr>velocity := update_velocity s t, last_tick := Some t, is_active := True,
                 active_position := None,
                 virtual_buy_stop := Some (mid t + straddle_gap_pips cfg / 10000),
                 virtual_sell_stop := Some (mid t - straddle_gap_pips cfg / 10000)\<rparr>,
               Some CLOSE_BUY))
    \<and> (side p = SELL \<and> sl p \<le> ask t \<longrightarrow>
            on_tick cfg s t =
              (s\<lparr>velocity := update_velocity s t, last_tick := Some t, is_active := True,
                 active_position := None,
                 virtual_buy_stop := Some (mid t + straddle_gap_pips cfg / 10000),
                 virtual_sell_stop := Some (mid t - straddle_gap_pips cfg / 10000)\<rparr>,
               Some CLOSE_SELL))
    \<and> ((side p = BUY \<and> bid t \<le> sl p) \<or> (side p = SELL \<and> sl p \<le> ask t) \<longrightarrow>
            is_Caged (fst (on_tick cfg s t)))"
proof -
  let ?s2 = "s\<lparr>velocity := update_velocity s t, last_tick := Some t\<rparr>"
  let ?s3 = "if is_active s then ?s2
             else reset_cage cfg (?s2\<lparr>is_active := True\<rparr>) (Some (mid t))"
  let ?r = "s\<lparr>velocity := update_velocity s t, last_tick := Some t, is_active := True,
                 active_position := None,
                 virtual_buy_stop := Some (mid t + straddle_gap_pips cfg / 10000),
                 virtual_sell_stop := Some (mid t - straddle_gap_pips cfg / 10000)\<rparr>"
  have step: "on_tick cfg s t = manage_position cfg ?s3 t"
    using assms(1,2) by (simp add: on_tick_gate_open on_tick_activation)
  have pos: "active_position ?s3 = Some p"
    using assms(1) by simp
  have cage: "reset_cage cfg (?s3\<lparr>active_position := None\<rparr>) (Some (mid t)) = ?r"
    using assms(3) by (simp add: reset_cage_anchor)
  have buy: "on_tick cfg s t = (?r, Some CLOSE_BUY)" if "side p = BUY" "bid t \<le> sl p"
    unfolding step using that cage by (simp add: manage_position_buy [OF pos])
  have sell: "on_tick cfg s t = (?r, Some CLOSE_SELL)" if "side p = SELL" "sl p \<le> ask t"
    unfolding step using that cage by (simp add: manage_position_sell [OF pos])
  have caged: "is_Caged ?r"
    by (simp add: is_Caged_def)
  show ?thesis
    using buy sell caged by auto
qed

text \<open>
  The short position of \<open>short_a\<close> with the ask over its stop one second later: the
  position is closed and the cage is 1.10045/1.10085 around the mid price 1.10065.
\<close>

theorem hard_stop_recages_witness:
  "active_position short_a = Some pos_b \<and>
   velocity_threshold_pips cfg_a \<le> update_velocity short_a k4_up_fast \<and>
   mid k4_up_fast \<noteq> 0 \<and> side pos_b = SELL \<and> sl pos_b \<le> ask k4_up_fast \<and>
   snd (on_tick cfg_a short_a k4_up_fast) = Some CLOSE_SELL \<and>
   active_position (fst (on_tick cfg_a short_a k4_up_fast)) = None \<and>
   virtual_buy_stop (fst (on_tick cfg_a short_a k4_up_fast)) = Some (110085 / 100000) \<and>
   virtual_sell_stop (fst (on_tick cfg_a short_a k4_up_fast)) = Some (110045 / 100000) \<and>
   is_Caged (fst (on_tick cfg_a short_a k4_up_fast))"
proof -
  have a: "active_position short_a = Some pos_b"
    by (simp add: short_a_def)
  have v: "update_velocity short_a k4_up_fast = 411 / 200"
    by (simp add: short_a_def update_velocity_def k3_down_def k4_up_fast_def mid_def)
  have b: "velocity_threshold_pips cfg_a \<le> update_velocity short_a k4_up_fast"
    by (simp add: v cfg_a_def default_config_def)
  have c: "mid k4_up_fast \<noteq> 0"
    by (simp add: k4_up_fast_def mid_def)
  have d: "side pos_b = SELL" "sl pos_b \<le> ask k4_up_fast"
    by (simp_all add: pos_b_def k4_up_fast_def)
  note th = hard_stop_recages [OF a b c]
  from th d have e: "on_tick cfg_a short_a k4_up_fast =
              (short_a\<lparr>velocity := update_velocity short_a k4_up_fast,
                 last_tick := Some k4_up_fast, is_active := True,
                 active_position := None,
                 virtual_buy_stop := Some (mid k4_up_fast + straddle_gap_pips cfg_a / 10000),
                 virtual_sell_stop := Some (mid k4_up_fast - straddle_gap_pips cfg_a / 10000)\<rparr>,
               Some CLOSE_SELL)"
    by blast
  from th d have f: "is_Caged (fst (on_tick cfg_a short_a k4_up_fast))"
    by blast
  have g: "mid k4_up_fast + straddle_gap_pips cfg_a / 10000 = 110085 / 100000"
    "mid k4_up_fast - straddle_gap_pips cfg_a / 10000 = 110045 / 100000"
    by (simp_all add: k4_up_fast_def mid_def cfg_a_def default_config_def)
  have h: "snd (on_tick cfg_a short_a k4_up_fast) = Some CLOSE_SELL"
    "active_position (fst (on_tick cfg_a short_a k4_up_fast)) = None"
    "virtual_buy_stop (fst (on_tick cfg_a short_a k4_up_fast)) = Some (110085 / 100000)"
    "virtual_sell_stop (fst (on_tick cfg_a short_a k4_up_fast)) = Some (110045 / 100000)"
    unfolding e by (simp_all add: g)
  from a b c d h f show ?thesis by blast
qed

text \<open>
  The same ask after 998 seconds: the stop is hit, the velocity is under the threshold,
  nothing is emitted and the short position stays open.
\<close>

theorem slow_tick_leaves_short_open:
  "active_position (run cfg_a init [k1, k2, k3_down]) = Some pos_b \<and>
   side pos_b = SELL \<and> sl pos_b \<le> ask k4_up_late \<and>
   snd (on_tick cfg_a (run cfg_a init [k1, k2, k3_down]) k4_up_late) = None \<and>
   active_position (fst (on_tick cfg_a (run cfg_a init [k1, k2, k3_down]) k4_up_late)) = Some pos_b"
  unfolding run_a3_down step_up_late
  by (simp add: short_a_def pos_b_def k4_up_late_def)

section \<open>The trailing stop\<close>

lemma manage_position_monotone:
  assumes "active_position s = Some p"
    and "active_position (fst (manage_position cfg s t)) = Some q"
  shows "side q = side p \<and> entry q = entry p \<and>
         (if side p = BUY then sl p \<le> sl q else sl q \<le> sl p)"
proof (cases "side p")
  case BUY
  from assms(2) show ?thesis
    unfolding manage_position_buy [OF assms(1) BUY]
    using assms(1) BUY by (auto split: if_splits)
next
  case SELL
  from assms(2) show ?thesis
    unfolding manage_position_sell [OF assms(1) SELL]
    using assms(1) SELL by (auto split: if_splits)
qed

lemma manage_position_modify:
  assumes "active_position s = Some p"
  shows "(\<exists>x. snd (manage_position cfg s t) = Some (MODIFY_SL x)) \<longleftrightarrow>
     (if side p = BUY
      then sl p < bid t \<and> trailing_start_pips cfg / 10000 < bid t - entry p \<and>
           sl p < bid t - trailing_step_pips cfg / 10000
      else ask t < sl p \<and> trailing_start_pips cfg / 10000 < entry p - ask t \<and>
           ask t + trailing_step_pips cfg / 10000 < sl p)"
proof (cases "side p")
  case BUY
  show ?thesis
    unfolding manage_position_buy [OF assms BUY] using BUY by auto
next
  case SELL
  show ?thesis
    unfolding manage_position_sell [OF assms SELL] using SELL by auto
qed

lemma tighter_candidate_not_stopped:
  assumes "0 \<le> trailing_step_pips cfg"
  shows "sl p < bid t - trailing_step_pips cfg / 10000 \<Longrightarrow> sl p < bid t"
    and "ask t + trailing_step_pips cfg / 10000 < sl p \<Longrightarrow> ask t < sl p"
proof -
  have "0 \<le> trailing_step_pips cfg / 10000"
    using assms by simp
  then show "sl p < bid t - trailing_step_pips cfg / 10000 \<Longrightarrow> sl p < bid t"
    and "ask t + trailing_step_pips cfg / 10000 < sl p \<Longrightarrow> ask t < sl p"
    by linarith+
qed

text \<open>
  C7, as the code has it. While a position is open, a tick leaves its side and entry as
  they are and moves its stop in the favourable direction only: up for a long, down for a
  short. \<^verbatim>\<open>MODIFY_SL\<close> is emitted exactly when the smoothed velocity is at or above
  the threshold, the hard stop is not hit, the unrealised profit exceeds the trailing
  start and the candidate stop is strictly tighter than the stop; with a trailing step
  that is not negative, a tighter candidate already means that the hard stop is not
  hit.
\<close>

theorem stop_only_tightens:
  assumes "active_position s = Some p"
  shows "(\<forall>q. active_position (fst (on_tick cfg s t)) = Some q \<longrightarrow>
            side q = side p \<and> entry q = entry p \<and>
            (if side p = BUY then sl p \<le> sl q else sl q \<le> sl p))
    \<and> ((\<exists>x. snd (on_tick cfg s t) = Some (MODIFY_SL x)) \<longleftrightarrow>
          velocity_threshold_pips cfg \<le> update_velocity s t \<and>
          (if side p = BUY
           then sl p < bid t \<and> trailing_start_pips cfg / 10000 < bid t - entry p \<and>
                sl p < bid t - trailing_step_pips cfg / 10000
           else ask t < sl p \<and> trailing_start_pips cfg / 10000 < entry p - ask t \<and>
                ask t + trailing_step_pips cfg / 10000 < sl p))
    \<and> (0 \<le> trailing_step_pips cfg \<longrightarrow>
          ((\<exists>x. snd (on_tick cfg s t) = Some (MODIFY_SL x)) \<longleftrightarrow>
             velocity_threshold_pips cfg \<le> update_velocity s t \<and>
             (if side p = BUY
              then trailing_start_pips cfg / 10000 < bid t - entry p \<and>
                   sl p < bid t - trailing_step_pips cfg / 10000
              else trailing_start_pips cfg / 10000 < entry p - ask t \<and>
                   ask t + trailing_step_pips cfg / 10000 < sl p)))"
  (is "?mono \<and> ?emit \<and> ?emit_nonneg")
proof -
  obtain s' where pos: "active_position s' = Some p"
    and step: "on_tick cfg s t =
       (if update_velocity s t < velocity_threshold_pips cfg then (s', None)
        else manage_position cfg s' t)"
    using on_tick_with_position [OF assms] by blast
  have mono: ?mono
  proof (cases "update_velocity s t < velocity_threshold_pips cfg")
    case True
    then show ?thesis
      using pos by (simp add: step)
  next
    case False
    then show ?thesis
      using manage_position_monotone [OF pos] by (simp add: step)
  qed
  have emit: ?emit
  proof (cases "update_velocity s t < velocity_threshold_pips cfg")
    case True
    then show ?thesis
      by (simp add: step)
  next
    case False
    then show ?thesis
      using manage_position_modify [OF pos, of cfg t] by (simp add: step not_less)
  qed
  have emit_nonneg: ?emit_nonneg
  proof (intro impI)
    assume nonneg: "0 \<le> trailing_step_pips cfg"
    show "(\<exists>x. snd (on_tick cfg s t) = Some (MODIFY_SL x)) \<longleftrightarrow>
             velocity_threshold_pips cfg \<le> update_velocity s t \<and>
             (if side p = BUY
              then trailing_start_pips cfg / 10000 < bid t - entry p \<and>
                   sl p < bid t - trailing_step_pips cfg / 10000
              else trailing_start_pips cfg / 10000 < entry p - ask t \<and>
                   ask t + trailing_step_pips cfg / 10000 < sl p)"
      unfolding emit
      using tighter_candidate_not_stopped [OF nonneg, where p = p and t = t] by (cases "side p = BUY") auto
  qed
  from mono emit emit_nonneg show ?thesis by blast
qed

text \<open>
  The long position of \<open>long_a\<close> with the bid four pips over the entry one second
  later: the stop moves from 1.1005 to 1.10115.
\<close>

theorem stop_only_tightens_witness:
  "active_position long_a = Some pos_a \<and> 0 \<le> trailing_step_pips cfg_a \<and>
   velocity_threshold_pips cfg_a \<le> update_velocity long_a k4_profit_fast \<and>
   side pos_a = BUY \<and>
   trailing_start_pips cfg_a / 10000 < bid k4_profit_fast - entry pos_a \<and>
   sl pos_a < bid k4_profit_fast - trailing_step_pips cfg_a / 10000 \<and>
   (\<exists>x. snd (on_tick cfg_a long_a k4_profit_fast) = Some (MODIFY_SL x)) \<and>
   active_position (fst (on_tick cfg_a long_a k4_profit_fast)) =
     Some (pos_a\<lparr>sl := 110115 / 100000\<rparr>) \<and>
   sl pos_a \<le> 110115 / 100000"
proof -
  have a: "active_position long_a = Some pos_a"
    by (simp add: long_a_def pos_a_def)
  have b: "0 \<le> trailing_step_pips cfg_a"
    by (simp add: cfg_a_def default_config_def)
  have v: "update_velocity long_a k4_profit_fast = 531 / 200"
    by (simp add: long_a_def update_velocity_def k3_def k4_profit_fast_def mid_def)
  have c: "velocity_threshold_pips cfg_a \<le> update_velocity long_a k4_profit_fast"
    by (simp add: v cfg_a_def default_config_def)
  have d: "side pos_a = BUY"
    "trailing_start_pips cfg_a / 10000 < bid k4_profit_fast - entry pos_a"
    "sl pos_a < bid k4_profit_fast - trailing_step_pips cfg_a / 10000"
    by (simp_all add: pos_a_def k4_profit_fast_def cfg_a_def default_config_def)
  note th = stop_only_tightens [OF a, of cfg_a k4_profit_fast]
  from th have "0 \<le> trailing_step_pips cfg_a \<longrightarrow>
          ((\<exists>x. snd (on_tick cfg_a long_a k4_profit_fast) = Some (MODIFY_SL x)) \<longleftrightarrow>
             velocity_threshold_pips cfg_a \<le> update_velocity long_a k4_profit_fast \<and>
             (if side pos_a = BUY
              then trailing_start_pips cfg_a / 10000 < bid k4_profit_fast - entry pos_a \<and>
                   sl pos_a < bid k4_profit_fast - trailing_step_pips cfg_a / 10000
              else trailing_start_pips cfg_a / 10000 < entry pos_a - ask k4_profit_fast \<and>
                   ask k4_profit_fast + trailing_step_pips cfg_a / 10000 < sl pos_a))"
    by (rule conjunct2 [OF conjunct2])
  with b c d have e: "\<exists>x. snd (on_tick cfg_a long_a k4_profit_fast) = Some (MODIFY_SL x)"
    by simp
  have f: "active_position (fst (on_tick cfg_a long_a k4_profit_fast)) =
     Some (pos_a\<lparr>sl := 110115 / 100000\<rparr>)"
    by (simp add: step_profit_fast)
  have g: "sl pos_a \<le> 110115 / 100000"
    by (simp add: pos_a_def)
  from a b c d e f g show ?thesis by blast
qed

text \<open>
  The same bid after 998 seconds: the profit exceeds the trailing start and the
  candidate is tighter, but the velocity is under the threshold and no \<^verbatim>\<open>MODIFY_SL\<close>
  is emitted.
\<close>

theorem slow_tick_emits_no_modify:
  "active_position (run cfg_a init [k1, k2, k3]) = Some pos_a \<and> side pos_a = BUY \<and>
   trailing_start_pips cfg_a / 10000 < bid k4_profit_late - entry pos_a \<and>
   sl pos_a < bid k4_profit_late - trailing_step_pips cfg_a / 10000 \<and>
   snd (on_tick cfg_a (run cfg_a init [k1, k2, k3]) k4_profit_late) = None \<and>
   active_position (fst (on_tick cfg_a (run cfg_a init [k1, k2, k3]) k4_profit_late)) = Some pos_a"
  unfolding run_a3 step_profit_late
  by (simp add: long_a_def pos_a_def k4_profit_late_def cfg_a_def default_config_def)

section \<open>Breaches of the cage\<close>

text \<open>
  The breach rule on set levels. On a tick that finds the engine active with no position
  and both levels set, and that passes the velocity filter, the buy stop is first lowered
  to the ask plus the gap when that is less, and the sell stop raised to the bid minus the
  gap when that is more (a level that is zero is not moved). With \<open>b\<close> and \<open>c\<close> the
  levels so trailed, which are the levels of the resulting state: if \<open>b\<close> is not zero
  and the ask is at or over it, a long position is opened at the ask with its stop the
  stop-loss distance under it, \<^verbatim>\<open>OPEN_BUY\<close> is emitted and the state is Long, whatever
  the sell side says; otherwise, if \<open>c\<close> is not zero and the bid is at or under it, a
  short position is opened at the bid with its stop the stop-loss distance over it,
  \<^verbatim>\<open>OPEN_SELL\<close> is emitted and the state is Short; otherwise nothing is emitted and
  the state stays Caged.
\<close>

lemma trail_cage_stops_stored:
  "virtual_buy_stop (trail_cage cfg (s\<lparr>velocity := v, last_tick := l\<rparr>) t) =
   virtual_buy_stop (trail_cage cfg s t)"
  "virtual_sell_stop (trail_cage cfg (s\<lparr>velocity := v, last_tick := l\<rparr>) t) =
   virtual_sell_stop (trail_cage cfg s t)"
  by (simp_all add: trail_cage_def trail_buy_def trail_sell_def Let_def split: option.split)

lemma trail_cage_levels:
  assumes "virtual_buy_stop s = Some b0" and "virtual_sell_stop s = Some c0"
  shows "virtual_buy_stop (trail_cage cfg s t) =
      Some (if b0 \<noteq> 0 \<and> ask t + straddle_gap_pips cfg / 10000 < b0
            then ask t + straddle_gap_pips cfg / 10000 else b0)"
    and "virtual_sell_stop (trail_cage cfg s t) =
      Some (if c0 \<noteq> 0 \<and> c0 < bid t - straddle_gap_pips cfg / 10000
            then bid t - straddle_gap_pips cfg / 10000 else c0)"
  using assms by (simp_all add: trail_cage_def trail_buy_def trail_sell_def Let_def)

lemma cage_breach_on_live_levels:
  fixes cfg :: StraddleConfig and s :: StraddleLogic and t :: MarketData
  assumes "is_active s" and "active_position s = None"
    and "velocity_threshold_pips cfg \<le> update_velocity s t"
    and "virtual_buy_stop s = Some b0" and "virtual_sell_stop s = Some c0"
  defines "b \<equiv> (if b0 \<noteq> 0 \<and> ask t + straddle_gap_pips cfg / 10000 < b0
                  then ask t + straddle_gap_pips cfg / 10000 else b0)"
    and "c \<equiv> (if c0 \<noteq> 0 \<and> c0 < bid t - straddle_gap_pips cfg / 10000
                  then bid t - straddle_gap_pips cfg / 10000 else c0)"
  shows "virtual_buy_stop (fst (on_tick cfg s t)) = Some b"
    and "virtual_sell_stop (fst (on_tick cfg s t)) = Some c"
    and "b \<noteq> 0 \<and> b \<le> ask t \<longrightarrow>
           snd (on_tick cfg s t) = Some (OPEN_BUY (ask t) (ask t - stop_loss_pips cfg / 10000)) \<and>
           active_position (fst (on_tick cfg s t)) =
             Some \<lparr>side = BUY, entry = ask t, sl = ask t - stop_loss_pips cfg / 10000\<rparr> \<and>
           is_Long (fst (on_tick cfg s t))"
    and "\<not> (b \<noteq> 0 \<and> b \<le> ask t) \<and> c \<noteq> 0 \<and> bid t \<le> c \<longrightarrow>
           snd (on_tick cfg s t) = Some (OPEN_SELL (bid t) (bid t + stop_loss_pips cfg / 10000)) \<and>
           active_position (fst (on_tick cfg s t)) =
             Some \<lparr>side = SELL, entry = bid t, sl = bid t + stop_loss_pips cfg / 10000\<rparr> \<and>
           is_Short (fst (on_tick cfg s t))"
    and "\<not> (b \<noteq> 0 \<and> b \<le> ask t) \<and> \<not> (c \<noteq> 0 \<and> bid t \<le> c) \<longrightarrow>
           snd (on_tick cfg s t) = None \<and> is_Caged (fst (on_tick cfg s t))"
proof -
  let ?s2 = "s\<lparr>velocity := update_velocity s t, last_tick := Some t\<rparr>"
  let ?tr = "trail_cage cfg ?s2 t"
  have step: "on_tick cfg s t = manage_cage cfg ?s2 t"
    by (rule on_tick_caged [OF assms(1-3)])
  have act: "is_active ?tr" and flat: "active_position ?tr = None"
    using assms(1,2) by simp_all
  have vb: "virtual_buy_stop ?tr = Some b" and vs: "virtual_sell_stop ?tr = Some c"
    unfolding b_def c_def trail_cage_stops_stored
    by (rule trail_cage_levels [OF assms(4,5)])+
  have bb: "buy_breach ?tr t \<longleftrightarrow> b \<noteq> 0 \<and> b \<le> ask t"
    by (simp add: buy_breach_def vb)
  have sb: "sell_breach ?tr t \<longleftrightarrow> c \<noteq> 0 \<and> bid t \<le> c"
    by (simp add: sell_breach_def vs)
  show "virtual_buy_stop (fst (on_tick cfg s t)) = Some b"
    and "virtual_sell_stop (fst (on_tick cfg s t)) = Some c"
    unfolding step by (simp_all add: vb vs)
  show "b \<noteq> 0 \<and> b \<le> ask t \<longrightarrow>
           snd (on_tick cfg s t) = Some (OPEN_BUY (ask t) (ask t - stop_loss_pips cfg / 10000)) \<and>
           active_position (fst (on_tick cfg s t)) =
             Some \<lparr>side = BUY, entry = ask t, sl = ask t - stop_loss_pips cfg / 10000\<rparr> \<and>
           is_Long (fst (on_tick cfg s t))"
    unfolding step manage_cage_cases bb sb using act by (simp add: is_Long_def)
  show "\<not> (b \<noteq> 0 \<and> b \<le> ask t) \<and> c \<noteq> 0 \<and> bid t \<le> c \<longrightarrow>
           snd (on_tick cfg s t) = Some (OPEN_SELL (bid t) (bid t + stop_loss_pips cfg / 10000)) \<and>
           active_position (fst (on_tick cfg s t)) =
             Some \<lparr>side = SELL, entry = bid t, sl = bid t + stop_loss_pips cfg / 10000\<rparr> \<and>
           is_Short (fst (on_tick cfg s t))"
    unfolding step manage_cage_cases bb sb using act by (simp add: is_Short_def)
  show "\<not> (b \<noteq> 0 \<and> b \<le> ask t) \<and> \<not> (c \<noteq> 0 \<and> bid t \<le> c) \<longrightarrow>
           snd (on_tick cfg s t) = None \<and> is_Caged (fst (on_tick cfg s t))"
    unfolding step manage_cage_cases bb sb using act flat by (simp add: is_Caged_def)
qed

text \<open>
  The tick \<open>k3_down\<close> from \<open>caged_a\<close> crosses the sell stop only: a short position
  is opened.
\<close>

lemma cage_breach_short_example:
  "snd (on_tick cfg_a caged_a k3_down) =
     Some (OPEN_SELL (bid k3_down) (bid k3_down + stop_loss_pips cfg_a / 10000)) \<and>
   is_Short (fst (on_tick cfg_a caged_a k3_down))"
proof -
  have a: "is_active caged_a" "active_position caged_a = None"
    and l: "virtual_buy_stop caged_a = Some (110075 / 100000)"
      "virtual_sell_stop caged_a = Some (110035 / 100000)"
    by (simp_all add: caged_a_def)
  have v: "update_velocity caged_a k3_down = 33 / 20"
    by (simp add: caged_a_def update_velocity_def k2_def k3_down_def mid_def)
  have g: "velocity_threshold_pips cfg_a \<le> update_velocity caged_a k3_down"
    by (simp add: v cfg_a_def default_config_def)
  note th = cage_breach_on_live_levels(4) [OF a g l]
  have "\<not> ((if (110075 / 100000 :: real) \<noteq> 0 \<and>
               ask k3_down + straddle_gap_pips cfg_a / 10000 < 110075 / 100000
            then ask k3_down + straddle_gap_pips cfg_a / 10000 else 110075 / 100000) \<noteq> 0 \<and>
          (if (110075 / 100000 :: real) \<noteq> 0 \<and>
               ask k3_down + straddle_gap_pips cfg_a / 10000 < 110075 / 100000
            then ask k3_down + straddle_gap_pips cfg_a / 10000 else 110075 / 100000)
            \<le> ask k3_down)"
    by (simp add: k3_down_def cfg_a_def default_config_def)
  moreover have "(if (110035 / 100000 :: real) \<noteq> 0 \<and>
               110035 / 100000 < bid k3_down - straddle_gap_pips cfg_a / 10000
            then bid k3_down - straddle_gap_pips cfg_a / 10000 else 110035 / 100000) \<noteq> 0 \<and>
          bid k3_down \<le> (if (110035 / 100000 :: real) \<noteq> 0 \<and>
               110035 / 100000 < bid k3_down - straddle_gap_pips cfg_a / 10000
            then bid k3_down - straddle_gap_pips cfg_a / 10000 else 110035 / 100000)"
    by (simp add: k3_down_def cfg_a_def default_config_def)
  ultimately show ?thesis
    using th by blast
qed

text \<open>
  The wide tick \<open>k3_wide\<close> from \<open>caged_a\<close> crosses both stops: the buy side wins.
\<close>

lemma cage_breach_tie_example:
  "bid k3_wide \<le> 110035 / 100000 \<and> 110075 / 100000 \<le> ask k3_wide \<and>
   virtual_buy_stop (fst (on_tick cfg_a caged_a k3_wide)) = Some (110075 / 100000) \<and>
   virtual_sell_stop (fst (on_tick cfg_a caged_a k3_wide)) = Some (110035 / 100000) \<and>
   snd (on_tick cfg_a caged_a k3_wide) =
     Some (OPEN_BUY (ask k3_wide) (ask k3_wide - stop_loss_pips cfg_a / 10000)) \<and>
   is_Long (fst (on_tick cfg_a caged_a k3_wide))"
proof -
  have a: "is_active caged_a" "active_position caged_a = None"
    and l: "virtual_buy_stop caged_a = Some (110075 / 100000)"
      "virtual_sell_stop caged_a = Some (110035 / 100000)"
    by (simp_all add: caged_a_def)
  have v: "update_velocity caged_a k3_wide = 27 / 20"
    by (simp add: caged_a_def update_velocity_def k2_def k3_wide_def mid_def)
  have g: "velocity_threshold_pips cfg_a \<le> update_velocity caged_a k3_wide"
    by (simp add: v cfg_a_def default_config_def)
  have b: "(if (110075 / 100000 :: real) \<noteq> 0 \<and>
               ask k3_wide + straddle_gap_pips cfg_a / 10000 < 110075 / 100000
            then ask k3_wide + straddle_gap_pips cfg_a / 10000 else 110075 / 100000)
           = 110075 / 100000"
    by (simp add: k3_wide_def cfg_a_def default_config_def)
  have c: "(if (110035 / 100000 :: real) \<noteq> 0 \<and>
               110035 / 100000 < bid k3_wide - straddle_gap_pips cfg_a / 10000
            then bid k3_wide - straddle_gap_pips cfg_a / 10000 else 110035 / 100000)
           = 110035 / 100000"
    by (simp add: k3_wide_def cfg_a_def default_config_def)
  have d: "bid k3_wide \<le> 110035 / 100000" "110075 / 100000 \<le> ask k3_wide"
    "(110075 / 100000 :: real) \<noteq> 0"
    by (simp_all add: k3_wide_def)
  note th = cage_breach_on_live_levels [OF a g l, unfolded b c]
  from th(1) th(2) th(3) d show ?thesis
    by blast
qed


section \<open>The ratchet of the cage\<close>

lemma trigger_le_refl [simp]: "trigger_le a a"
  by (simp add: trigger_le_def split: option.split)

lemma trigger_le_trans: "trigger_le a b \<Longrightarrow> trigger_le b c \<Longrightarrow> trigger_le a c"
  by (auto simp add: trigger_le_def split: option.splits)

lemma trail_cage_ratchet:
  "trigger_le (virtual_buy_stop (trail_cage cfg s t)) (virtual_buy_stop s)"
  "trigger_le (virtual_sell_stop s) (virtual_sell_stop (trail_cage cfg s t))"
  by (simp_all add: trail_cage_def trail_buy_def trail_sell_def trigger_le_def Let_def
      split: option.split)

lemma on_tick_caged_ratchet:
  assumes "is_active s" and "active_position s = None"
    and "velocity_threshold_pips cfg \<le> update_velocity s t"
  shows "trigger_le (virtual_buy_stop (fst (on_tick cfg s t))) (virtual_buy_stop s)"
    and "trigger_le (virtual_sell_stop s) (virtual_sell_stop (fst (on_tick cfg s t)))"
  unfolding on_tick_caged [OF assms]
  by (simp_all add: trail_cage_stops_stored trail_cage_ratchet)

text \<open>
  C3, as the code has it. Over any sequence of ticks handled by cage management (each
  finds the engine active and flat and passes the velocity filter; the last may breach),
  the buy stop does not rise and the sell stop does not fall.
\<close>

theorem cage_ratchet:
  "cage_managed cfg s ticks \<Longrightarrow>
     trigger_le (virtual_buy_stop (run cfg s ticks)) (virtual_buy_stop s) \<and>
     trigger_le (virtual_sell_stop s) (virtual_sell_stop (run cfg s ticks))"
proof (induction ticks arbitrary: s)
  case Nil
  show ?case by simp
next
  case (Cons t ticks)
  let ?s' = "fst (on_tick cfg s t)"
  from Cons.prems have caged: "is_active s" "active_position s = None"
    "velocity_threshold_pips cfg \<le> update_velocity s t"
    and rest: "cage_managed cfg ?s' ticks"
    by simp_all
  note here = on_tick_caged_ratchet [OF caged]
  note later = Cons.IH [OF rest]
  have "trigger_le (virtual_buy_stop (run cfg ?s' ticks)) (virtual_buy_stop s)"
    using later here(1) by (blast intro: trigger_le_trans)
  moreover have "trigger_le (virtual_sell_stop s) (virtual_sell_stop (run cfg ?s' ticks))"
    using later here(2) by (blast intro: trigger_le_trans)
  ultimately show ?case by simp
qed

text \<open>
  The ticks \<open>w1\<close> and \<open>w2\<close> from \<open>caged_a\<close>: the buy stop falls from 1.10075 to
  1.10072 and the sell stop rises from 1.10035 to 1.1004.
\<close>

theorem cage_ratchet_witness:
  "cage_managed cfg_a caged_a [w1, w2] \<and>
   virtual_buy_stop caged_a = Some (110075 / 100000) \<and>
   virtual_buy_stop (run cfg_a caged_a [w1, w2]) = Some (110072 / 100000) \<and>
   virtual_sell_stop caged_a = Some (110035 / 100000) \<and>
   virtual_sell_stop (run cfg_a caged_a [w1, w2]) = Some (11004 / 10000) \<and>
   trigger_le (virtual_buy_stop (run cfg_a caged_a [w1, w2])) (virtual_buy_stop caged_a) \<and>
   trigger_le (virtual_sell_stop caged_a) (virtual_sell_stop (run cfg_a caged_a [w1, w2]))"
proof -
  have v1: "update_velocity caged_a w1 = 27 / 20"
    by (simp add: caged_a_def update_velocity_def k2_def w1_def mid_def)
  have v2: "update_velocity caged_w1 w2 = 297 / 200"
    by (simp add: caged_w1_def update_velocity_def w1_def w2_def mid_def)
  have a: "cage_managed cfg_a caged_a [w1, w2]"
    by (simp add: step_w1 v1 v2) (simp add: caged_a_def caged_w1_def cfg_a_def default_config_def)
  have r: "run cfg_a caged_a [w1, w2] = caged_w2"
    by (simp add: step_w1 step_w2)
  have b: "virtual_buy_stop caged_a = Some (110075 / 100000)"
    "virtual_sell_stop caged_a = Some (110035 / 100000)"
    by (simp_all add: caged_a_def)
  have c: "virtual_buy_stop (run cfg_a caged_a [w1, w2]) = Some (110072 / 100000)"
    "virtual_sell_stop (run cfg_a caged_a [w1, w2]) = Some (11004 / 10000)"
    unfolding r by (simp_all add: caged_w2_def)
  from cage_ratchet [OF a] a b c show ?thesis by blast
qed

text \<open>
  A tick under the threshold leaves the engine Caged and places the cage anew: after
  \<open>k3_late\<close> the buy stop has risen from 1.10075 to 1.10125, with no breach.
\<close>

theorem slow_tick_raises_buy_stop:
  "is_Caged (run cfg_a init [k1, k2]) \<and>
   snd (on_tick cfg_a (run cfg_a init [k1, k2]) k3_late) = None \<and>
   is_Caged (run cfg_a init [k1, k2, k3_late]) \<and>
   virtual_buy_stop (run cfg_a init [k1, k2]) = Some (110075 / 100000) \<and>
   virtual_buy_stop (run cfg_a init [k1, k2, k3_late]) = Some (110125 / 100000) \<and>
   (110075 / 100000 :: real) < 110125 / 100000"
proof -
  have "run cfg_a init [k1, k2, k3_late] = caged_late"
    by (simp add: step_a1 step_a2 step_late)
  then show ?thesis
    unfolding run_a2 step_late
    by (simp add: caged_a_def caged_late_def is_Caged_def)
qed

section \<open>The reachable states\<close>

lemma cage_populated_stored [simp]:
  "cage_populated (s\<lparr>velocity := v\<rparr>) = cage_populated s"
  "cage_populated (s\<lparr>last_tick := l\<rparr>) = cage_populated s"
  "cage_populated (s\<lparr>is_active := a\<rparr>) = cage_populated s"
  "cage_populated (s\<lparr>active_position := q\<rparr>) = cage_populated s"
  by (simp_all add: cage_populated_def)

lemma cage_unset_stored [simp]:
  "cage_unset (s\<lparr>velocity := v\<rparr>) = cage_unset s"
  "cage_unset (s\<lparr>last_tick := l\<rparr>) = cage_unset s"
  by (simp_all add: cage_unset_def)

lemma reset_cage_populated:
  "p \<noteq> 0 \<Longrightarrow> cage_populated (reset_cage cfg s (Some p))"
  "last_tick s = Some t \<Longrightarrow> mid t \<noteq> 0 \<Longrightarrow> cage_populated (reset_cage cfg s None)"
  by (simp_all add: reset_cage_def cage_populated_def Let_def)

lemma trail_cage_populated [simp]:
  "cage_populated (trail_cage cfg s t) = cage_populated s"
  by (simp add: trail_cage_def trail_buy_def trail_sell_def cage_populated_def Let_def
      split: option.split)

lemma manage_cage_populated [simp]:
  "cage_populated (fst (manage_cage cfg s t)) = cage_populated s"
  by (simp add: manage_cage_def Let_def)

lemma manage_position_populated:
  assumes "mid t \<noteq> 0" and "cage_populated s"
  shows "cage_populated (fst (manage_position cfg s t))"
proof (cases "active_position s")
  case None
  then show ?thesis
    using assms(2) by (simp add: manage_position_def)
next
  case (Some p)
  show ?thesis
  proof (cases "side p")
    case BUY
    show ?thesis
      unfolding manage_position_buy [OF Some BUY]
      using assms by (simp add: reset_cage_populated)
  next
    case SELL
    show ?thesis
      unfolding manage_position_sell [OF Some SELL]
      using assms by (simp add: reset_cage_populated)
  qed
qed

lemma on_tick_closed_position:
  assumes "update_velocity s t < velocity_threshold_pips cfg"
  shows "active_position (fst (on_tick cfg s t)) = active_position s"
  using assms by (simp add: on_tick_gate_closed)

lemma on_tick_closed_inactive:
  assumes "update_velocity s t < velocity_threshold_pips cfg" and "\<not> is_active s"
  shows "cage_unset (fst (on_tick cfg s t)) = cage_unset s"
  using assms by (simp add: on_tick_gate_closed)

lemma on_tick_engine_inv:
  assumes "engine_inv s"
  shows "engine_inv (fst (on_tick cfg s t))"
proof (cases "update_velocity s t < velocity_threshold_pips cfg")
  case True
  have "is_active (fst (on_tick cfg s t)) = is_active s"
    using True by (simp add: on_tick_is_active)
  moreover have "active_position (fst (on_tick cfg s t)) = active_position s"
    by (rule on_tick_closed_position [OF True])
  moreover have "\<not> is_active s \<Longrightarrow> cage_unset (fst (on_tick cfg s t)) = cage_unset s"
    by (rule on_tick_closed_inactive [OF True])
  ultimately show ?thesis
    using assms by (simp add: engine_inv_def)
next
  case False
  then have "is_active (fst (on_tick cfg s t))"
    by (simp add: on_tick_is_active)
  then show ?thesis
    by (simp add: engine_inv_def)
qed

lemma on_tick_cage_inv:
  assumes "cage_inv s" and "mid t \<noteq> 0"
  shows "cage_inv (fst (on_tick cfg s t))"
proof -
  let ?s2 = "s\<lparr>velocity := update_velocity s t, last_tick := Some t\<rparr>"
  consider (closed_reset) "update_velocity s t < velocity_threshold_pips cfg"
      "is_active s \<and> active_position s = None"
    | (closed_keep) "update_velocity s t < velocity_threshold_pips cfg"
      "\<not> (is_active s \<and> active_position s = None)"
    | (active) "velocity_threshold_pips cfg \<le> update_velocity s t" "is_active s"
    | (inactive) "velocity_threshold_pips cfg \<le> update_velocity s t" "\<not> is_active s"
    by fastforce
  then show ?thesis
  proof cases
    case closed_reset
    then have "on_tick cfg s t = (reset_cage cfg ?s2 None, None)"
      by (simp add: on_tick_gate_closed)
    moreover have "cage_populated (reset_cage cfg ?s2 None)"
      using assms(2) by (simp add: reset_cage_populated(2) [where t = t])
    ultimately show ?thesis
      by (simp add: cage_inv_def)
  next
    case closed_keep
    then have "on_tick cfg s t = (?s2, None)"
      by (auto simp add: on_tick_gate_closed)
    then show ?thesis
      using assms(1) by (simp add: cage_inv_def)
  next
    case active
    then have pop: "cage_populated ?s2"
      using assms(1) by (simp add: cage_inv_def)
    have "on_tick cfg s t =
        (if active_position s \<noteq> None then manage_position cfg ?s2 t else manage_cage cfg ?s2 t)"
      by (rule on_tick_gate_open [OF active])
    then have "cage_populated (fst (on_tick cfg s t))"
      using pop manage_position_populated [OF assms(2) pop] by simp
    then show ?thesis
      by (simp add: cage_inv_def)
  next
    case inactive
    let ?s3 = "reset_cage cfg (?s2\<lparr>is_active := True\<rparr>) (Some (mid t))"
    have pop: "cage_populated ?s3"
      using assms(2) by (simp add: reset_cage_populated(1))
    have "on_tick cfg s t =
        (if active_position s \<noteq> None then manage_position cfg ?s3 t else manage_cage cfg ?s3 t)"
      by (rule on_tick_activation [OF inactive])
    then have "cage_populated (fst (on_tick cfg s t))"
      using pop manage_position_populated [OF assms(2) pop] by simp
    then show ?thesis
      by (simp add: cage_inv_def)
  qed
qed

lemma run_engine_inv: "engine_inv s \<Longrightarrow> engine_inv (run cfg s ticks)"
  by (induction ticks arbitrary: s) (simp_all add: on_tick_engine_inv)

lemma run_cage_inv:
  "cage_inv s \<Longrightarrow> \<forall>t\<in>set ticks. mid t \<noteq> 0 \<Longrightarrow> cage_inv (run cfg s ticks)"
  by (induction ticks arbitrary: s) (simp_all add: on_tick_cage_inv)

lemma init_inv: "engine_inv init" "cage_inv init"
  by (simp_all add: engine_inv_def cage_inv_def cage_unset_def init_def)

text \<open>
  C2, as the code has it. After any sequence of ticks from the initial state, exactly one
  of Idle, Caged, Long and Short holds; a position is open if and only if the state is
  Long or Short; in the state Idle both cage levels are unset; and when no tick has a
  zero mid price, the cage levels are populated if and only if the state is not Idle.
  Opening a position does not clear the levels, so they stay populated in Long and
  Short.
\<close>

theorem states_exclusive:
  "((is_Idle (run cfg init ticks) \<and> \<not> is_Caged (run cfg init ticks) \<and>
       \<not> is_Long (run cfg init ticks) \<and> \<not> is_Short (run cfg init ticks)) \<or>
    (\<not> is_Idle (run cfg init ticks) \<and> is_Caged (run cfg init ticks) \<and>
       \<not> is_Long (run cfg init ticks) \<and> \<not> is_Short (run cfg init ticks)) \<or>
    (\<not> is_Idle (run cfg init ticks) \<and> \<not> is_Caged (run cfg init ticks) \<and>
       is_Long (run cfg init ticks) \<and> \<not> is_Short (run cfg init ticks)) \<or>
    (\<not> is_Idle (run cfg init ticks) \<and> \<not> is_Caged (run cfg init ticks) \<and>
       \<not> is_Long (run cfg init ticks) \<and> is_Short (run cfg init ticks)))
   \<and> (active_position (run cfg init ticks) \<noteq> None \<longleftrightarrow>
        is_Long (run cfg init ticks) \<or> is_Short (run cfg init ticks))
   \<and> (is_Idle (run cfg init ticks) \<longrightarrow> cage_unset (run cfg init ticks))
   \<and> ((\<forall>t\<in>set ticks. mid t \<noteq> 0) \<longrightarrow>
        (cage_populated (run cfg init ticks) \<longleftrightarrow> \<not> is_Idle (run cfg init ticks)))"
proof -
  let ?s = "run cfg init ticks"
  have inv: "engine_inv ?s"
    by (rule run_engine_inv [OF init_inv(1)])
  then have pos_active: "active_position ?s \<noteq> None \<longrightarrow> is_active ?s"
    and idle_unset: "\<not> is_active ?s \<longrightarrow> cage_unset ?s"
    by (simp_all add: engine_inv_def)
  have one: "(is_Idle ?s \<and> \<not> is_Caged ?s \<and> \<not> is_Long ?s \<and> \<not> is_Short ?s) \<or>
    (\<not> is_Idle ?s \<and> is_Caged ?s \<and> \<not> is_Long ?s \<and> \<not> is_Short ?s) \<or>
    (\<not> is_Idle ?s \<and> \<not> is_Caged ?s \<and> is_Long ?s \<and> \<not> is_Short ?s) \<or>
    (\<not> is_Idle ?s \<and> \<not> is_Caged ?s \<and> \<not> is_Long ?s \<and> is_Short ?s)"
  proof (cases "active_position ?s")
    case None
    then show ?thesis
      by (simp add: is_Idle_def is_Caged_def is_Long_def is_Short_def)
  next
    case (Some p)
    with pos_active have "is_active ?s" by simp
    with Some show ?thesis
      by (cases "side p") (simp_all add: is_Idle_def is_Caged_def is_Long_def is_Short_def)
  qed
  have pos: "active_position ?s \<noteq> None \<longleftrightarrow> is_Long ?s \<or> is_Short ?s"
  proof (cases "active_position ?s")
    case None
    then show ?thesis
      by (simp add: is_Long_def is_Short_def)
  next
    case (Some p)
    with pos_active have "is_active ?s" by simp
    with Some show ?thesis
      by (cases "side p") (simp_all add: is_Long_def is_Short_def)
  qed
  have idle: "is_Idle ?s \<longrightarrow> cage_unset ?s"
    using idle_unset by (simp add: is_Idle_def)
  have populated: "(\<forall>t\<in>set ticks. mid t \<noteq> 0) \<longrightarrow> (cage_populated ?s \<longleftrightarrow> \<not> is_Idle ?s)"
  proof
    assume "\<forall>t\<in>set ticks. mid t \<noteq> 0"
    then have "cage_inv ?s"
      by (rule run_cage_inv [OF init_inv(2)])
    then have "is_active ?s \<longrightarrow> cage_populated ?s"
      by (simp add: cage_inv_def)
    moreover have "\<not> is_active ?s \<longrightarrow> \<not> cage_populated ?s"
      using idle_unset by (simp add: cage_unset_def cage_populated_def)
    moreover have "is_Idle ?s \<longleftrightarrow> \<not> is_active ?s"
      using pos_active by (auto simp add: is_Idle_def)
    ultimately show "cage_populated ?s \<longleftrightarrow> \<not> is_Idle ?s"
      by blast
  qed
  from one pos idle populated show ?thesis by blast
qed

text \<open>
  The run \<open>k1\<close>, \<open>k2\<close>, \<open>k3\<close> under the default configuration ends Long with
  the cage populated.
\<close>

theorem states_exclusive_witness:
  "mid k1 \<noteq> 0 \<and> mid k2 \<noteq> 0 \<and> mid k3 \<noteq> 0 \<and>
   is_Long (run default_config init [k1, k2, k3]) \<and>
   \<not> is_Idle (run default_config init [k1, k2, k3]) \<and>
   cage_populated (run default_config init [k1, k2, k3]) \<and>
   active_position (run default_config init [k1, k2, k3]) \<noteq> None"
proof -
  have m: "mid k1 \<noteq> 0" "mid k2 \<noteq> 0" "mid k3 \<noteq> 0"
    by (simp_all add: mid_def k1_def k2_def k3_def)
  then have all: "\<forall>t\<in>set [k1, k2, k3]. mid t \<noteq> 0"
    by simp
  have l: "is_Long (run default_config init [k1, k2, k3])"
    unfolding run_d3 by (simp add: long_a_def is_Long_def)
  note th = states_exclusive [of default_config "[k1, k2, k3]"]
  from th l have p: "active_position (run default_config init [k1, k2, k3]) \<noteq> None"
    by blast
  from th l have i: "\<not> is_Idle (run default_config init [k1, k2, k3])"
    by blast
  from th all i have c: "cage_populated (run default_config init [k1, k2, k3])"
    by blast
  from m l i c p show ?thesis by blast
qed

text \<open>
  That run refutes the equivalence of a populated cage with the state Caged: the state
  is Long, a position is open, and both levels are set.
\<close>

theorem cage_populated_while_long:
  "is_Long (run default_config init [k1, k2, k3]) \<and>
   \<not> is_Caged (run default_config init [k1, k2, k3]) \<and>
   active_position (run default_config init [k1, k2, k3]) = Some pos_a \<and>
   virtual_buy_stop (run default_config init [k1, k2, k3]) = Some (110075 / 100000) \<and>
   virtual_sell_stop (run default_config init [k1, k2, k3]) = Some (11005 / 10000) \<and>
   cage_populated (run default_config init [k1, k2, k3])"
  unfolding run_d3
  by (simp add: long_a_def pos_a_def is_Long_def is_Caged_def cage_populated_def)

section \<open>Observations outside the valid domain\<close>

lemma update_velocity_elapsed:
  assumes "last_tick s = Some lt" and "timestamp lt < timestamp t"
  shows "update_velocity s t =
     velocity s * (7 / 10) +
     \<bar>mid t - mid lt\<bar> * 10000 / (timestamp t - timestamp lt) * (3 / 10)"
  using assms by (simp add: update_velocity_def Let_def)

text \<open>
  C5, as the code has it. \<^verbatim>\<open>on_tick\<close> has no validation and no error result. An
  observation that is not valid (the ask under the bid, or a price that is not positive)
  is stored as it is as the previous observation, and the velocity after the tick is
  that of the ordinary update: with an earlier previous observation, the blend of the
  old velocity and the pip change of the mid prices per second.
\<close>

theorem invalid_observation_processed:
  assumes "\<not> valid_observation t"
  shows "last_tick (fst (on_tick cfg s t)) = Some t \<and>
    velocity (fst (on_tick cfg s t)) = update_velocity s t \<and>
    (\<forall>lt. last_tick s = Some lt \<and> timestamp lt < timestamp t \<longrightarrow>
       velocity (fst (on_tick cfg s t)) =
         velocity s * (7 / 10) +
         \<bar>mid t - mid lt\<bar> * 10000 / (timestamp t - timestamp lt) * (3 / 10))"
proof -
  have "last_tick (fst (on_tick cfg s t)) = Some t"
    by (rule on_tick_last_tick)
  moreover have v: "velocity (fst (on_tick cfg s t)) = update_velocity s t"
    by (rule on_tick_velocity)
  moreover have "\<forall>lt. last_tick s = Some lt \<and> timestamp lt < timestamp t \<longrightarrow>
       velocity (fst (on_tick cfg s t)) =
         velocity s * (7 / 10) +
         \<bar>mid t - mid lt\<bar> * 10000 / (timestamp t - timestamp lt) * (3 / 10)"
    unfolding v by (blast intro: update_velocity_elapsed)
  ultimately show ?thesis by blast
qed

text \<open>
  The crossed tick \<open>k2_crossed\<close> after \<open>k1\<close>: it is stored, and the velocity
  becomes 1.35.
\<close>

theorem invalid_observation_processed_witness:
  "\<not> valid_observation k2_crossed \<and>
   last_tick (init\<lparr>last_tick := Some k1\<rparr>) = Some k1 \<and>
   timestamp k1 < timestamp k2_crossed \<and>
   last_tick (fst (on_tick default_config (init\<lparr>last_tick := Some k1\<rparr>) k2_crossed)) =
     Some k2_crossed \<and>
   velocity (fst (on_tick default_config (init\<lparr>last_tick := Some k1\<rparr>) k2_crossed)) = 27 / 20"
proof -
  have a: "\<not> valid_observation k2_crossed"
    by (simp add: valid_observation_def k2_crossed_def)
  have b: "last_tick (init\<lparr>last_tick := Some k1\<rparr>) = Some k1"
    by simp
  have c: "timestamp k1 < timestamp k2_crossed"
    by (simp add: k1_def k2_crossed_def)
  note th = invalid_observation_processed [OF a, of default_config "init\<lparr>last_tick := Some k1\<rparr>"]
  from th have d: "last_tick (fst (on_tick default_config (init\<lparr>last_tick := Some k1\<rparr>) k2_crossed)) =
     Some k2_crossed"
    by blast
  from th b c have "velocity (fst (on_tick default_config (init\<lparr>last_tick := Some k1\<rparr>) k2_crossed)) =
         velocity (init\<lparr>last_tick := Some k1\<rparr>) * (7 / 10) +
         \<bar>mid k2_crossed - mid k1\<bar> * 10000 / (timestamp k2_crossed - timestamp k1) * (3 / 10)"
    by blast
  also have "\<dots> = 27 / 20"
    by (simp add: init_def mid_def k1_def k2_crossed_def)
  finally have e: "velocity (fst (on_tick default_config (init\<lparr>last_tick := Some k1\<rparr>) k2_crossed)) = 27 / 20" .
  from a b c d e show ?thesis by blast
qed

text \<open>
  On that run nothing is rejected or clamped: the crossed tick takes the velocity from
  0 to 1.35, activates the engine and leaves a cage with the buy stop under the sell
  stop.
\<close>

theorem crossed_tick_accepted:
  "ask k2_crossed < bid k2_crossed \<and>
   \<not> valid_observation k2_crossed \<and>
   velocity (run default_config init [k1]) = 0 \<and>
   virtual_buy_stop (run default_config init [k1]) = None \<and>
   on_tick default_config (run default_config init [k1]) k2_crossed =
     (\<lparr> virtual_buy_stop = Some (11002 / 10000), virtual_sell_stop = Some (11008 / 10000),
        active_position = None, last_tick = Some k2_crossed, velocity = 27 / 20,
        is_active = True \<rparr>, None)"
proof -
  have r: "run default_config init [k1] = init\<lparr>last_tick := Some k1\<rparr>"
    by (simp add: first_tick)
  have a: "ask k2_crossed < bid k2_crossed" "\<not> valid_observation k2_crossed"
    by (simp_all add: valid_observation_def k2_crossed_def)
  have b: "velocity (run default_config init [k1]) = 0"
    "virtual_buy_stop (run default_config init [k1]) = None"
    unfolding r by (simp_all add: init_def)
  have c: "on_tick default_config (run default_config init [k1]) k2_crossed =
     (\<lparr> virtual_buy_stop = Some (11002 / 10000), virtual_sell_stop = Some (11008 / 10000),
        active_position = None, last_tick = Some k2_crossed, velocity = 27 / 20,
        is_active = True \<rparr>, None)"
    unfolding r step_crossed caged_crossed_def by (rule refl)
  from a b c show ?thesis by blast
qed

section \<open>The velocity update and the stored observation\<close>

text \<open>
  C9. The tick always replaces the stored previous observation, and when there is no
  previous observation, or the elapsed time since it is zero or negative, the smoothed
  velocity is left as it was: the division by the elapsed time is never reached then.
\<close>

theorem velocity_guard_and_store:
  "last_tick (fst (on_tick cfg s t)) = Some t \<and>
   ((last_tick s = None \<or> (\<exists>lt. last_tick s = Some lt \<and> timestamp t - timestamp lt \<le> 0))
      \<longrightarrow> velocity (fst (on_tick cfg s t)) = velocity s)"
  by (auto simp add: on_tick_velocity on_tick_last_tick update_velocity_def Let_def)

text \<open>
  Two ticks with the same timestamp: the second leaves the velocity at zero.
\<close>

theorem velocity_guard_and_store_witness:
  "last_tick (fst (on_tick default_config init k1)) = Some k1 \<and>
   timestamp k1_again - timestamp k1 \<le> 0 \<and>
   velocity (fst (on_tick default_config (fst (on_tick default_config init k1)) k1_again)) = 0 \<and>
   last_tick (fst (on_tick default_config (fst (on_tick default_config init k1)) k1_again)) = Some k1_again"
proof -
  let ?s = "fst (on_tick default_config init k1)"
  have a: "last_tick ?s = Some k1" and b: "velocity ?s = 0"
    by (simp_all add: first_tick) (simp add: init_def)
  have c: "timestamp k1_again - timestamp k1 \<le> 0"
    by (simp add: k1_def k1_again_def)
  from velocity_guard_and_store [of default_config ?s k1_again] a b c
  show ?thesis by simp
qed

section \<open>The parameters no transition reads\<close>

lemma reset_cage_inert:
  "reset_cage (cfg\<lparr>take_profit_pips := tp, max_spread_pips := ms\<rparr>) s p = reset_cage cfg s p"
  by (simp add: reset_cage_def cong: if_cong option.case_cong)

lemma trail_cage_inert:
  "trail_cage (cfg\<lparr>take_profit_pips := tp, max_spread_pips := ms\<rparr>) s t = trail_cage cfg s t"
  by (simp add: trail_cage_def trail_buy_def trail_sell_def cong: if_cong option.case_cong)

lemma manage_cage_inert:
  "manage_cage (cfg\<lparr>take_profit_pips := tp, max_spread_pips := ms\<rparr>) s t = manage_cage cfg s t"
  by (simp add: manage_cage_def trail_cage_inert cong: if_cong)

lemma manage_position_inert:
  "manage_position (cfg\<lparr>take_profit_pips := tp, max_spread_pips := ms\<rparr>) s t =
   manage_position cfg s t"
  by (simp add: manage_position_def reset_cage_inert
      cong: if_cong option.case_cong side.case_cong)

lemma on_tick_inert:
  "on_tick (cfg\<lparr>take_profit_pips := tp, max_spread_pips := ms\<rparr>) s t = on_tick cfg s t"
  by (simp add: on_tick_def reset_cage_inert manage_cage_inert manage_position_inert
      cong: if_cong)

text \<open>
  C10. Two configurations that differ only in the take-profit distance and the maximal
  spread give, from the same state and over the same ticks, the same trace: the same
  state and the same instruction after every tick.
\<close>

theorem unused_parameters_inert:
  "trace (cfg\<lparr>take_profit_pips := tp, max_spread_pips := ms\<rparr>) s ticks = trace cfg s ticks"
  by (induction ticks arbitrary: s) (simp_all add: on_tick_inert)

end
